theory Spec2Isabelle
  imports Complex_Main
begin

section \<open>Values and the JavaScript engine\<close>

subsection \<open>Values\<close>

text \<open>
  The values the program handles: the values of JSON, \<^verbatim>\<open>undefined\<close>, and function
  values (the scene's random number generator is bound to \<^verbatim>\<open>random\<close> in the binding
  context). An object is the list of its own properties in the order in which
  \<^verbatim>\<open>for (key in obj)\<close> enumerates them; its keys are distinct.

  A number is a binary64 value: \<open>JNum x\<close> is a finite number other than \<^verbatim>\<open>-0\<close>, given by
  the real number \<open>x\<close> it denotes (\<open>JNum 0\<close> is \<^verbatim>\<open>+0\<close>); the other numbers are \<^verbatim>\<open>-0\<close>,
  \<^verbatim>\<open>Infinity\<close>, \<^verbatim>\<open>-Infinity\<close> and \<^verbatim>\<open>NaN\<close>. The model does no floating-point
  arithmetic of its own: the arithmetic operators are the engine's (see below).
\<close>

datatype jsval =
    JUndefined
  | JNull
  | JBool bool
  | JNum real
  | JNegZero
  | JInfinity
  | JNegInfinity
  | JNaN
  | JStr string
  | JArr "jsval list"
  | JObj "(string \<times> jsval) list"
  | JFunction

subsection \<open>The operators of the language\<close>

text \<open>
  The arithmetic of the program is JavaScript's: its operators round to binary64,
  coerce operands that are not numbers, and \<^verbatim>\<open>Math.sqrt\<close>, \<^verbatim>\<open>Math.cos\<close> and
  \<^verbatim>\<open>Math.sin\<close> are approximations that the language leaves to the implementation. None
  of this is in the repository's sources, so the operators are parameters of the model:
  \<^item> \<open>opSub\<close>, \<open>opDiv\<close>, \<open>opAdd\<close>, \<open>opMul\<close> are \<^verbatim>\<open>a - b\<close>, \<^verbatim>\<open>a / b\<close>, \<^verbatim>\<open>a + b\<close>
    (also \<^verbatim>\<open>a += b\<close>) and \<^verbatim>\<open>a * b\<close>;
  \<^item> \<open>opGt\<close> and \<open>opLe\<close> are \<^verbatim>\<open>a > b\<close> and \<^verbatim>\<open>a <= b\<close>;
  \<^item> \<open>mathSqrt\<close>, \<open>mathCos\<close>, \<open>mathSin\<close> and \<open>mathPI\<close> are \<^verbatim>\<open>Math.sqrt\<close>, \<^verbatim>\<open>Math.cos\<close>,
    \<^verbatim>\<open>Math.sin\<close> and \<^verbatim>\<open>Math.PI\<close>.
\<close>

record engine =
  opSub :: "jsval \<Rightarrow> jsval \<Rightarrow> jsval"
  opDiv :: "jsval \<Rightarrow> jsval \<Rightarrow> jsval"
  opAdd :: "jsval \<Rightarrow> jsval \<Rightarrow> jsval"
  opMul :: "jsval \<Rightarrow> jsval \<Rightarrow> jsval"
  opGt :: "jsval \<Rightarrow> jsval \<Rightarrow> bool"
  opLe :: "jsval \<Rightarrow> jsval \<Rightarrow> bool"
  mathSqrt :: "jsval \<Rightarrow> jsval"
  mathCos :: "jsval \<Rightarrow> jsval"
  mathSin :: "jsval \<Rightarrow> jsval"
  mathPI :: jsval

section \<open>Geometry and the tilted mirror\<close>

text \<open>\<^verbatim>\<open>geometry.point(x, y)\<close>: a point \<^verbatim>\<open>{x, y}\<close>.\<close>

record Point =
  x :: jsval
  y :: jsval


text \<open>
  A ray and a line segment are both objects with two points \<^verbatim>\<open>p1\<close> and \<^verbatim>\<open>p2\<close>
  (\<^verbatim>\<open>LineObjMixin\<close> gives the mirror its two endpoints). The field \<open>filter'\<close> of the
  mirror is its property \<^verbatim>\<open>filter\<close>.
\<close>

record Line =
  p1 :: Point
  p2 :: Point

record TiltedMirror = Line +
  tiltAngle :: jsval
  filter' :: bool
  invert :: bool
  wavelength :: jsval
  bandwidth :: jsval








section \<open>The module expansion engine\<close>

subsection \<open>Errors and outcomes\<close>

text \<open>The binding context \<^verbatim>\<open>params\<close>: an object from names to values.\<close>

type_synonym ctx = "(string \<times> jsval) list"

text \<open>
  What the code throws. The source throws strings that embed the offending fragment, the
  binding context and the message of the error they wrap; the model keeps these parts
  instead of the formatted text.
  \<^item> \<open>TypeError\<close>: raised by the JavaScript engine itself;
  \<^item> \<open>EvaluateError\<close>: raised by the expression evaluator;
  \<^item> \<open>ParseRangeError\<close>: \<^verbatim>\<open>error parsing variable range "..." with parameters ...: ...\<close>;
  \<^item> \<open>ExpandStringError\<close>: \<^verbatim>\<open>error expanding string "..." with parameters ...: ...\<close>;
  \<^item> \<open>ExpandArrayError\<close>: \<^verbatim>\<open>error expanding object ... in array with parameters ...: ...\<close>;
  \<^item> \<open>LoopVariableTooLarge\<close>: \<^verbatim>\<open>The length of the loop variable "..." is too large. ...\<close>;
  \<^item> \<open>LoopTooLarge\<close>: \<^verbatim>\<open>The length of the loop is too large. ...\<close>.
\<close>

datatype error =
    TypeError string
  | EvaluateError string
  | ParseRangeError jsval ctx error
  | ExpandStringError string ctx error
  | ExpandArrayError jsval ctx error
  | LoopVariableTooLarge string
  | LoopTooLarge

text \<open>
  A call either returns a value or throws; both leave a state behind (the state of the
  scene's random number generator, which expressions may draw from).
\<close>

datatype ('a, 's) outcome = Returns 'a 's | Throws error 's

definition bind :: "('a, 's) outcome \<Rightarrow> ('a \<Rightarrow> 's \<Rightarrow> ('b, 's) outcome) \<Rightarrow> ('b, 's) outcome" where
  "bind m f = (case m of Throws e s \<Rightarrow> Throws e s | Returns a s \<Rightarrow> f a s)"

text \<open>\<^verbatim>\<open>try { ... } catch (e) { throw wrap(e) }\<close>\<close>

definition catch :: "('a, 's) outcome \<Rightarrow> (error \<Rightarrow> error) \<Rightarrow> ('a, 's) outcome" where
  "catch m wrap = (case m of Throws e s \<Rightarrow> Throws (wrap e) s | Returns a s \<Rightarrow> Returns a s)"

text \<open>
  A call that may also run forever has an optional outcome: \<open>None\<close> stands for a call
  that does not return.
\<close>

definition andThen ::
  "('a, 's) outcome option \<Rightarrow> ('a \<Rightarrow> 's \<Rightarrow> ('b, 's) outcome option) \<Rightarrow> ('b, 's) outcome option" where
  "andThen m f =
    (case m of None \<Rightarrow> None | Some (Throws e s) \<Rightarrow> Some (Throws e s) | Some (Returns a s) \<Rightarrow> f a s)"

definition tryCatch ::
  "('a, 's) outcome option \<Rightarrow> (error \<Rightarrow> error) \<Rightarrow> ('a, 's) outcome option" where
  "tryCatch m wrap = map_option (\<lambda>res. catch res wrap) m"

subsection \<open>What the engine takes from outside\<close>

text \<open>
  Besides the operators of the language, the parts of the program that are not in the
  repository's sources are parameters of the model:
  \<^item> \<open>evaluate\<close> is \<^verbatim>\<open>math.evaluate(expr, scope)\<close> of the math.js library. It gets
    whatever the source passes as expression (a string in the normal case), the binding
    context and the state of the random number generator; it returns a value or
    throws, and leaves a new state of the generator. It is assumed not to assign to
    the scope.
  \<^item> \<open>toString\<close> is JavaScript's conversion of a value that is not a string to a string.
  \<^item> \<open>sceneObjs\<close> is the registry of scene object classes (\<^verbatim>\<open>sceneObjs[type]\<close>): the
    constructor registered under a type tag, if any. A constructor gets the expanded
    record; it may throw, and may draw from the random number generator. \<open>'o\<close> is the
    type of the scene objects.
\<close>

record ('r, 'o) host = engine +
  evaluate :: "jsval \<Rightarrow> ctx \<Rightarrow> 'r \<Rightarrow> (jsval, 'r) outcome"
  toString :: "jsval \<Rightarrow> string"
  sceneObjs :: "string \<Rightarrow> (jsval \<Rightarrow> 'r \<Rightarrow> ('o, 'r) outcome) option"

subsection \<open>The module definition and the module object\<close>

text \<open>
  \<^verbatim>\<open>ModuleDef\<close>: \<open>paramsDef\<close> and \<open>objsDef\<close> are its properties \<^verbatim>\<open>params\<close> and
  \<^verbatim>\<open>objs\<close>; \<open>vars\<close> and \<open>maxLoopLength\<close> may be absent. The bound \<open>maxLoopLength\<close>, a
  number of a JSON document, is finite.
\<close>

record ModuleDef =
  numPoints :: nat
  paramsDef :: "string list"
  vars :: "(string \<times> jsval) list option"
  objsDef :: "jsval list"
  maxLoopLength :: "real option"

text \<open>
  \<^verbatim>\<open>ModuleObj\<close>, the fields that \<^verbatim>\<open>expandObjs\<close> reads and writes: \<open>paramsObj\<close> is
  \<^verbatim>\<open>this.params\<close>, \<open>error\<close> is \<^verbatim>\<open>this.error\<close> (\<open>None\<close> for \<^verbatim>\<open>null\<close>).
\<close>

record 'o ModuleObj =
  moduleDef :: ModuleDef
  points :: "Point list"
  paramsObj :: ctx
  objs :: "'o list"
  error :: "error option"
  notDone :: bool

text \<open>The result of \<^verbatim>\<open>parseVariableRange\<close>; \<open>end'\<close> is its property \<^verbatim>\<open>end\<close>.\<close>

record VariableRange =
  name :: string
  start :: jsval
  step :: jsval
  end' :: jsval
  defaultVal :: jsval

subsection \<open>Strings and objects\<close>

text \<open>
  \<^verbatim>\<open>str.split(c)\<close> for a separator of one character. A string is a list of characters
  with codes below 256 here, a sequence of UTF-16 code units in the source.
\<close>

fun split :: "char \<Rightarrow> string \<Rightarrow> string list" where
  "split c [] = [[]]"
| "split c (a # s) =
    (if a = c then [] # split c s
     else (case split c s of [] \<Rightarrow> [[a]] | p # ps \<Rightarrow> (a # p) # ps))"

text \<open>
  \<^verbatim>\<open>str.trim()\<close> removes white space and line terminators from both ends. Among the
  characters with codes below 256 these are tab, line feed, vertical tab, form feed,
  carriage return, space and the no-break space.
\<close>

definition isWhiteSpace :: "char \<Rightarrow> bool" where
  "isWhiteSpace c =
    (c \<in> set [CHR 0x09, CHR 0x0A, CHR 0x0B, CHR 0x0C, CHR 0x0D, CHR 0x20, CHR 0xA0])"

definition trim :: "string \<Rightarrow> string" where
  "trim s = rev (dropWhile isWhiteSpace (rev (dropWhile isWhiteSpace s)))"

text \<open>\<^verbatim>\<open>parts[i]\<close> of an array of strings: \<^verbatim>\<open>undefined\<close> beyond its end.\<close>

definition element :: "string list \<Rightarrow> nat \<Rightarrow> jsval" where
  "element parts i = (if i < length parts then JStr (parts ! i) else JUndefined)"

text \<open>
  \<^verbatim>\<open>obj[k] = v\<close>: an existing property keeps its place, a new one comes last (the
  enumeration order of keys that are not array indices).
\<close>

fun assign :: "string \<Rightarrow> jsval \<Rightarrow> ctx \<Rightarrow> ctx" where
  "assign k v [] = [(k, v)]"
| "assign k v ((k', v') # kvs) =
    (if k = k' then (k, v) # kvs else (k', v') # assign k v kvs)"

text \<open>\<^verbatim>\<open>Object.assign(target, source)\<close>\<close>

definition objectAssign :: "ctx \<Rightarrow> ctx \<Rightarrow> ctx" where
  "objectAssign target source = fold (\<lambda>(k, v). assign k v) source target"

text \<open>What \<^verbatim>\<open>!v\<close> negates: every value but \<^verbatim>\<open>undefined\<close>, \<^verbatim>\<open>null\<close>, \<^verbatim>\<open>false\<close>, the two
  zeros, \<^verbatim>\<open>NaN\<close> and the empty string.\<close>

definition truthy :: "jsval \<Rightarrow> bool" where
  "truthy v = (case v of
      JUndefined \<Rightarrow> False
    | JNull \<Rightarrow> False
    | JBool b \<Rightarrow> b
    | JNum n \<Rightarrow> n \<noteq> 0
    | JNegZero \<Rightarrow> False
    | JNaN \<Rightarrow> False
    | JStr s \<Rightarrow> s \<noteq> []
    | _ \<Rightarrow> True)"

text \<open>The string that \<^verbatim>\<open>result += v\<close> appends, and the property key that a value stands for.\<close>

definition stringOf :: "('r, 'o, 'z) host_scheme \<Rightarrow> jsval \<Rightarrow> string" where
  "stringOf h v = (case v of JStr s \<Rightarrow> s | _ \<Rightarrow> toString h v)"

text \<open>The decimal digits of a natural number, as in \<^verbatim>\<open>'x_' + (i+1)\<close>.\<close>

fun decimal :: "nat \<Rightarrow> string" where
  "decimal n =
    (if n < 10 then [''0123456789'' ! n]
     else decimal (n div 10) @ [''0123456789'' ! (n mod 10)])"

declare decimal.simps [simp del]

subsection \<open>\<^verbatim>\<open>parseVariableRange\<close>\<close>

text \<open>
  \<^verbatim>\<open>ModuleObj.parseVariableRange(str, params)\<close>, lines 303 to 320. Called on a value
  that is not a string, \<^verbatim>\<open>str.split\<close> raises a \<^verbatim>\<open>TypeError\<close>; without an \<^verbatim>\<open>=\<close>,
  \<^verbatim>\<open>parts[1].split\<close> does. Every error is caught and thrown again, wrapped.
\<close>

definition parseVariableRange ::
  "('r, 'o, 'z) host_scheme \<Rightarrow> jsval \<Rightarrow> ctx \<Rightarrow> 'r \<Rightarrow> (VariableRange, 'r) outcome" where
  "parseVariableRange h str params r =
    catch
      (case str of
         JStr s \<Rightarrow>
           (let parts = split CHR ''='' s;
                name = trim (hd parts)
            in case tl parts of
                 [] \<Rightarrow> Throws (TypeError ''Cannot read properties of undefined (reading 'split')'') r
               | part1 # _ \<Rightarrow>
                   (let parts2 = split CHR '':'' part1;
                        start = element parts2 0;
                        step = element parts2 1;
                        end = element parts2 2;
                        default = (if length parts2 = 4 then Some (element parts2 3) else None)
                    in bind (evaluate h start params r) (\<lambda>startVal r.
                       bind (evaluate h step params r) (\<lambda>stepVal r.
                       bind (evaluate h end params r) (\<lambda>endVal r.
                       bind (case default of
                               None \<Rightarrow> Returns startVal r
                             | Some d \<Rightarrow> evaluate h d params r) (\<lambda>defaultVal r.
                       Returns \<lparr>name = name, start = startVal, step = stepVal, end' = endVal,
                                defaultVal = defaultVal\<rparr> r))))))
       | JUndefined \<Rightarrow>
           Throws (TypeError ''Cannot read properties of undefined (reading 'split')'') r
       | JNull \<Rightarrow> Throws (TypeError ''Cannot read properties of null (reading 'split')'') r
       | _ \<Rightarrow> Throws (TypeError ''str.split is not a function'') r)
      (ParseRangeError str params)"

subsection \<open>\<^verbatim>\<open>expandString\<close>\<close>

text \<open>The loop of lines 336 to 342 from index \<open>i\<close> on, over the parts that are left.\<close>

fun concatParts ::
  "('r, 'o, 'z) host_scheme \<Rightarrow> string list \<Rightarrow> nat \<Rightarrow> ctx \<Rightarrow> string \<Rightarrow> 'r \<Rightarrow> (string, 'r) outcome" where
  "concatParts h [] i params result r = Returns result r"
| "concatParts h (part # parts) i params result r =
    (if i mod 2 = 0 then concatParts h parts (i + 1) params (result @ part) r
     else bind (evaluate h (JStr part) params r) (\<lambda>v r.
            concatParts h parts (i + 1) params (result @ stringOf h v) r))"

text \<open>\<^verbatim>\<open>ModuleObj.expandString(str, params)\<close>, lines 328 to 348.\<close>

definition expandString ::
  "('r, 'o, 'z) host_scheme \<Rightarrow> string \<Rightarrow> ctx \<Rightarrow> 'r \<Rightarrow> (jsval, 'r) outcome" where
  "expandString h str params r =
    catch
      (let parts = split CHR 0x60 str in
       if length parts = 3 \<and> parts ! 0 = [] \<and> parts ! 2 = []
       then evaluate h (JStr (parts ! 1)) params r
       else bind (concatParts h parts 0 params [] r) (\<lambda>result r. Returns (JStr result) r))
      (ExpandStringError str params)"

subsection \<open>Loop variables\<close>

text \<open>\<^verbatim>\<open>self.moduleDef.maxLoopLength || 1000\<close>: an absent or zero bound counts as 1000.\<close>

definition maxLoopLengthOr1000 :: "ModuleDef \<Rightarrow> real" where
  "maxLoopLengthOr1000 m =
    (case maxLoopLength m of None \<Rightarrow> 1000 | Some l \<Rightarrow> if l = 0 then 1000 else l)"

text \<open>
  Line 404, \<^verbatim>\<open>(loopVars[0].end - loopVars[0].start) / loopVars[0].step + 1\<close>: the loop
  length as the engine computes it, whatever the start, the step and the end are.
\<close>

definition loopLength :: "'e engine_scheme \<Rightarrow> VariableRange \<Rightarrow> jsval" where
  "loopLength e loopVar =
    opAdd e (opDiv e (opSub e (end' loopVar) (start loopVar)) (step loopVar)) (JNum 1)"

text \<open>
  The loop of lines 408 to 414, \<^verbatim>\<open>for (value = start; value <= end; value += step)\<close>,
  from the current \<open>value\<close> on, with the \<open>result\<close> collected so far. The loop need not
  end, so it is a partial function: \<open>None\<close> is a loop that runs forever. Each round calls
  \<^verbatim>\<open>expandLoopVars(loopVars1)\<close>; that call does not depend on the round, so its outcome
  \<open>inner\<close> is passed in (it is only looked at when a round is run).
\<close>

partial_function (option) valueLoop ::
  "'e engine_scheme \<Rightarrow> (error + ctx list) option \<Rightarrow> string \<Rightarrow> jsval \<Rightarrow> jsval \<Rightarrow> jsval \<Rightarrow> ctx list
     \<Rightarrow> (error + ctx list) option" where
  "valueLoop e inner loopVar value stepVal endVal result =
    (if opLe e value endVal then
       (case inner of
          None \<Rightarrow> None
        | Some (Inl err) \<Rightarrow> Some (Inl err)
        | Some (Inr loopParams1) \<Rightarrow>
            valueLoop e inner loopVar (opAdd e value stepVal) stepVal endVal
              (result @ map (assign loopVar value) loopParams1))
     else Some (Inr result))"

text \<open>
  The local function \<^verbatim>\<open>expandLoopVars(loopVars)\<close> of \<^verbatim>\<open>expandArray\<close>, lines 398 to
  417: \<open>Inl\<close> is a thrown error.
\<close>

fun expandLoopVars ::
  "'e engine_scheme \<Rightarrow> ModuleDef \<Rightarrow> ctx \<Rightarrow> VariableRange list \<Rightarrow> (error + ctx list) option" where
  "expandLoopVars e m params [] = Some (Inr [params])"
| "expandLoopVars e m params (loopVar # loopVars1) =
    (if opGt e (loopLength e loopVar) (JNum (maxLoopLengthOr1000 m))
     then Some (Inl (LoopVariableTooLarge (name loopVar)))
     else valueLoop e (expandLoopVars e m params loopVars1) (name loopVar)
            (start loopVar) (step loopVar) (end' loopVar) [])"

text \<open>
  The value of the loop variable in round \<open>k\<close> of the loop (rounds are counted from 0):
  the start, to which the step has been added \<open>k\<close> times by the engine.
\<close>

definition loopValue :: "'e engine_scheme \<Rightarrow> VariableRange \<Rightarrow> nat \<Rightarrow> jsval" where
  "loopValue e loopVar k = ((\<lambda>value. opAdd e value (step loopVar)) ^^ k) (start loopVar)"

text \<open>Lines 386 to 393: the ranges of the \<^verbatim>\<open>for\<close> key, a string or an array of strings.\<close>

fun parseVariableRanges ::
  "('r, 'o, 'z) host_scheme \<Rightarrow> jsval list \<Rightarrow> ctx \<Rightarrow> 'r \<Rightarrow> (VariableRange list, 'r) outcome" where
  "parseVariableRanges h [] params r = Returns [] r"
| "parseVariableRanges h (forObj1 # forObj) params r =
    bind (parseVariableRange h forObj1 params r) (\<lambda>loopVar r.
    bind (parseVariableRanges h forObj params r) (\<lambda>loopVars r.
    Returns (loopVar # loopVars) r))"

definition parseLoopVars ::
  "('r, 'o, 'z) host_scheme \<Rightarrow> jsval \<Rightarrow> ctx \<Rightarrow> 'r \<Rightarrow> (VariableRange list, 'r) outcome" where
  "parseLoopVars h forObj params r =
    (case forObj of
       JStr s \<Rightarrow> parseVariableRanges h [forObj] params r
     | JArr forObjs \<Rightarrow> parseVariableRanges h forObjs params r
     | _ \<Rightarrow> Returns [] r)"

subsection \<open>\<^verbatim>\<open>expandObject\<close> and \<^verbatim>\<open>expandArray\<close>\<close>

lemma andThen_cong [fundef_cong]:
  assumes "m = m'" and "\<And>a s. m' = Some (Returns a s) \<Longrightarrow> f a s = f' a s"
  shows "andThen m f = andThen m' f'"
  using assms by (auto simp: andThen_def split: option.splits outcome.splits)

text \<open>
  \<^item> \<open>expandObject\<close> is \<^verbatim>\<open>ModuleObj.expandObject(obj, params)\<close>, lines 356 to 372, on
    the properties of \<^verbatim>\<open>obj\<close> that are left to visit; \<open>expandValue\<close> is its choice by the
    type of a property's value (\<^verbatim>\<open>typeof null\<close> is \<^verbatim>\<open>'object'\<close>, and \<^verbatim>\<open>expandObject(null)\<close>
    is the empty object).
  \<^item> \<open>expandArray\<close> is \<^verbatim>\<open>ModuleObj.expandArray(arr, params)\<close>, lines 380 to 450, on
    the elements that are left; \<open>expandElement\<close> is the body of its \<^verbatim>\<open>try\<close> block and
    returns the values it pushes. \<^verbatim>\<open>'for' in obj\<close> raises a \<^verbatim>\<open>TypeError\<close> when
    \<^verbatim>\<open>obj\<close> is not an object (arrays and functions are objects).
  \<^item> \<open>expandLoop\<close> is the loop of lines 424 to 429 over the loop parameters.
\<close>

function (sequential)
  expandObject ::
    "('r, 'o, 'z) host_scheme \<Rightarrow> ModuleDef \<Rightarrow> (string \<times> jsval) list \<Rightarrow> ctx \<Rightarrow> 'r
       \<Rightarrow> ((string \<times> jsval) list, 'r) outcome option"
  and expandValue ::
    "('r, 'o, 'z) host_scheme \<Rightarrow> ModuleDef \<Rightarrow> jsval \<Rightarrow> ctx \<Rightarrow> 'r \<Rightarrow> (jsval, 'r) outcome option"
  and expandArray ::
    "('r, 'o, 'z) host_scheme \<Rightarrow> ModuleDef \<Rightarrow> jsval list \<Rightarrow> ctx \<Rightarrow> 'r
       \<Rightarrow> (jsval list, 'r) outcome option"
  and expandElement ::
    "('r, 'o, 'z) host_scheme \<Rightarrow> ModuleDef \<Rightarrow> jsval \<Rightarrow> ctx \<Rightarrow> 'r
       \<Rightarrow> (jsval list, 'r) outcome option"
  and expandLoop ::
    "('r, 'o, 'z) host_scheme \<Rightarrow> ModuleDef \<Rightarrow> (string \<times> jsval) list \<Rightarrow> ctx list \<Rightarrow> 'r
       \<Rightarrow> (jsval list, 'r) outcome option"
where
  "expandObject h m [] params r = Some (Returns [] r)"
| "expandObject h m ((key, val) # entries) params r =
    (if key = ''for'' \<or> key = ''if'' then expandObject h m entries params r
     else andThen (expandValue h m val params r) (\<lambda>expanded r.
          andThen (expandObject h m entries params r) (\<lambda>result r.
          Some (Returns ((key, expanded) # result) r))))"
| "expandValue h m (JStr str) params r = Some (expandString h str params r)"
| "expandValue h m (JArr arr) params r =
    andThen (expandArray h m arr params r) (\<lambda>result r. Some (Returns (JArr result) r))"
| "expandValue h m (JObj entries) params r =
    andThen (expandObject h m entries params r) (\<lambda>result r. Some (Returns (JObj result) r))"
| "expandValue h m JNull params r = Some (Returns (JObj []) r)"
| "expandValue h m val params r = Some (Returns val r)"
| "expandArray h m [] params r = Some (Returns [] r)"
| "expandArray h m (obj # arr) params r =
    andThen (tryCatch (expandElement h m obj params r) (ExpandArrayError obj params))
      (\<lambda>pushed r.
    andThen (expandArray h m arr params r) (\<lambda>result r.
    Some (Returns (pushed @ result) r)))"
| "expandElement h m (JObj entries) params r =
    (case map_of entries ''for'' of
       Some forObj \<Rightarrow>
         (case parseLoopVars h forObj params r of
            Throws e r \<Rightarrow> Some (Throws e r)
          | Returns loopVars r \<Rightarrow>
              (case expandLoopVars h m params loopVars of
                 None \<Rightarrow> None
               | Some (Inl e) \<Rightarrow> Some (Throws e r)
               | Some (Inr loopParams) \<Rightarrow>
                   if real (length loopParams) > maxLoopLengthOr1000 m
                   then Some (Throws LoopTooLarge r)
                   else expandLoop h m entries loopParams r))
     | None \<Rightarrow>
         (case map_of entries ''if'' of
            Some cond \<Rightarrow>
              (case evaluate h cond params r of
                 Throws e r \<Rightarrow> Some (Throws e r)
               | Returns c r \<Rightarrow>
                   if truthy c
                   then andThen (expandObject h m entries params r) (\<lambda>result r.
                          Some (Returns [JObj result] r))
                   else Some (Returns [] r))
          | None \<Rightarrow>
              andThen (expandObject h m entries params r) (\<lambda>result r.
                Some (Returns [JObj result] r))))"
| "expandElement h m (JArr arr) params r =
    andThen (expandArray h m arr params r) (\<lambda>result r. Some (Returns [JArr result] r))"
| "expandElement h m JFunction params r = Some (Returns [JFunction] r)"
| "expandElement h m obj params r =
    Some (Throws (TypeError ''Cannot use 'in' operator to search for 'for' '') r)"
| "expandLoop h m entries [] r = Some (Returns [] r)"
| "expandLoop h m entries (loopParam # loopParams) r =
    (case (case map_of entries ''if'' of
             Some cond \<Rightarrow>
               (case evaluate h cond loopParam r of
                  Throws e r \<Rightarrow> Throws e r
                | Returns c r \<Rightarrow> Returns (truthy c) r)
           | None \<Rightarrow> Returns True r) of
       Throws e r \<Rightarrow> Some (Throws e r)
     | Returns keep r \<Rightarrow>
         if \<not> keep then expandLoop h m entries loopParams r
         else andThen (expandObject h m entries loopParam r) (\<lambda>result r.
              andThen (expandLoop h m entries loopParams r) (\<lambda>results r.
              Some (Returns (JObj result # results) r))))"
  by pat_completeness auto
termination
  by (relation "inv_image (less_than <*lex*> less_than)
        (\<lambda>a. case a of
           Inl (Inl (h, m, entries, params, r)) \<Rightarrow>
             (size_list (size_prod (\<lambda>_. 0) size) entries, 0)
         | Inl (Inr (h, m, val, params, r)) \<Rightarrow> (size val, 0)
         | Inr (Inl (h, m, arr, params, r)) \<Rightarrow> (size_list size arr, 0)
         | Inr (Inr (Inl (h, m, obj, params, r))) \<Rightarrow> (size obj, 0)
         | Inr (Inr (Inr (h, m, entries, loopParams, r))) \<Rightarrow>
             (size_list (size_prod (\<lambda>_. 0) size) entries, Suc (length loopParams)))")
    auto

subsection \<open>\<^verbatim>\<open>expandObjs\<close>\<close>

text \<open>Lines 461 to 464: the bindings \<^verbatim>\<open>x_1\<close>, \<^verbatim>\<open>y_1\<close>, \<^verbatim>\<open>x_2\<close>, ... of the control points.\<close>

fun pointParams :: "nat \<Rightarrow> Point list \<Rightarrow> ctx \<Rightarrow> ctx" where
  "pointParams i [] fullParams = fullParams"
| "pointParams i (pt # pts) fullParams =
    pointParams (i + 1) pts
      (assign (''y_'' @ decimal (i + 1)) (y pt)
        (assign (''x_'' @ decimal (i + 1)) (x pt) fullParams))"

text \<open>Lines 457 to 466: the parameters, the control points and \<^verbatim>\<open>random\<close>.\<close>

definition fullParamsOf :: "('o, 'z) ModuleObj_scheme \<Rightarrow> ctx" where
  "fullParamsOf this =
    assign ''random'' JFunction
      (pointParams 0 (points this) (objectAssign [] (paramsObj this)))"

text \<open>
  \<^verbatim>\<open>new sceneObjs[objData.type](this.scene, objData)\<close>: reading \<^verbatim>\<open>type\<close> of
  \<^verbatim>\<open>null\<close> or \<^verbatim>\<open>undefined\<close> raises a \<^verbatim>\<open>TypeError\<close>, and so does \<^verbatim>\<open>new\<close> when the
  registry has nothing under the key.
\<close>

definition construct ::
  "('r, 'o, 'z) host_scheme \<Rightarrow> jsval \<Rightarrow> 'r \<Rightarrow> ('o, 'r) outcome" where
  "construct h objData r =
    (case objData of
       JUndefined \<Rightarrow> Throws (TypeError ''Cannot read properties of undefined (reading 'type')'') r
     | JNull \<Rightarrow> Throws (TypeError ''Cannot read properties of null (reading 'type')'') r
     | _ \<Rightarrow>
        (let type = (case objData of
                       JObj entries \<Rightarrow>
                         (case map_of entries ''type'' of Some t \<Rightarrow> t | None \<Rightarrow> JUndefined)
                     | _ \<Rightarrow> JUndefined)
         in case sceneObjs h (stringOf h type) of
              None \<Rightarrow> Throws (TypeError ''sceneObjs[objData.type] is not a constructor'') r
            | Some constructor \<Rightarrow> constructor objData r))"

text \<open>\<^verbatim>\<open>expandedObjs.map(objData => new ...)\<close>, lines 476 to 478.\<close>

fun constructAll ::
  "('r, 'o, 'z) host_scheme \<Rightarrow> jsval list \<Rightarrow> 'r \<Rightarrow> ('o list, 'r) outcome" where
  "constructAll h [] r = Returns [] r"
| "constructAll h (objData # expandedObjs) r =
    bind (construct h objData r) (\<lambda>created r.
    bind (constructAll h expandedObjs r) (\<lambda>rest r.
    Returns (created # rest) r))"

text \<open>
  \<^verbatim>\<open>ModuleObj.expandObjs()\<close>, lines 455 to 482. The state is the module object and the
  state of the random number generator. The expansion of \<^verbatim>\<open>moduleDef.vars\<close> comes
  before the \<^verbatim>\<open>try\<close> block and before \<^verbatim>\<open>this.error = null\<close>.
\<close>

definition expandObjs ::
  "('r, 'o, 'z) host_scheme \<Rightarrow> ('o, 'y) ModuleObj_scheme \<Rightarrow> 'r
     \<Rightarrow> (unit, ('o, 'y) ModuleObj_scheme \<times> 'r) outcome option" where
  "expandObjs h this r =
    (let fullParams = fullParamsOf this in
     case expandObject h (moduleDef this)
            (case vars (moduleDef this) of None \<Rightarrow> [] | Some entries \<Rightarrow> entries) fullParams r of
       None \<Rightarrow> None
     | Some (Throws e r) \<Rightarrow> Some (Throws e (this, r))
     | Some (Returns varParams r) \<Rightarrow>
         (let fullParams = objectAssign fullParams varParams;
              this = this\<lparr>error := None\<rparr>
          in case andThen (expandArray h (moduleDef this) (objsDef (moduleDef this)) fullParams r)
                    (\<lambda>expandedObjs r. Some (constructAll h expandedObjs r)) of
               None \<Rightarrow> None
             | Some (Returns created r) \<Rightarrow> Some (Returns () (this\<lparr>objs := created\<rparr>, r))
             | Some (Throws e r) \<Rightarrow> Some (Returns () (this\<lparr>error := Some e\<rparr>, r))))"

subsection \<open>The registry of scene objects\<close>

text \<open>
  The names under which the registry (\<^verbatim>\<open>src/unnamed/part_001\<close>) exports a class of scene
  objects. The classes themselves are not among the sources.
\<close>

definition objTypes :: "string list" where
  "objTypes =
    [''SingleRay'', ''Beam'', ''PointSource'', ''AngleSource'', ''Mirror'', ''ArcMirror'',
     ''ParabolicMirror'', ''CustomMirror'', ''IdealMirror'', ''BeamSplitter'', ''PlaneGlass'',
     ''CircleGlass'', ''Glass'', ''CustomGlass'', ''IdealLens'', ''SphericalLens'',
     ''CircleGrinGlass'', ''GrinGlass'', ''Blocker'', ''CircleBlocker'', ''Aperture'',
     ''DiffractionGrating'', ''Ruler'', ''Protractor'', ''Detector'', ''TextLabel'',
     ''LineArrow'', ''Drawing'', ''Handle'', ''CropBox'', ''ModuleObj'']"

section \<open>An engine and a host for examples\<close>

subsection \<open>Rounding to binary64\<close>

text \<open>
  The examples need the operators on concrete numbers. The engine below computes on
  numbers as IEEE 754 prescribes for binary64 with rounding to nearest, ties to even:
  the result of an operation is the exact result, rounded.

  \<open>pow2 k\<close> is 2 to the power \<open>k\<close>. The numbers from \<open>pow2 k\<close> up to \<open>pow2 (k + 1)\<close> are
  \<open>pow2 (k - 52)\<close> apart; below \<open>pow2 (- 1022)\<close> (the subnormal numbers) they are
  \<open>pow2 (- 1074)\<close> apart. \<open>round64 v\<close> is the number nearest to the real number \<open>v\<close>: an
  infinity when the nearest number would be \<open>pow2 1024\<close> or beyond, a zero with the sign of
  \<open>v\<close> when \<open>v\<close> is too small.
\<close>

definition pow2 :: "int \<Rightarrow> real" where
  "pow2 k = (if 0 \<le> k then 2 ^ nat k else 1 / 2 ^ nat (- k))"

definition binade :: "real \<Rightarrow> int" where
  "binade v = max \<lfloor>log 2 \<bar>v\<bar>\<rfloor> (- 1022)"

definition roundEven :: "real \<Rightarrow> int" where
  "roundEven q =
    (let f = \<lfloor>q\<rfloor> in
     if q - of_int f < 1 / 2 then f
     else if 1 / 2 < q - of_int f then f + 1
     else if even f then f else f + 1)"

definition round64 :: "real \<Rightarrow> jsval" where
  "round64 v =
    (if v = 0 then JNum 0
     else
       (let ulp = pow2 (binade v - 52);
            w = ulp * of_int (roundEven (v / ulp))
        in if 2 ^ 1024 \<le> \<bar>w\<bar> then (if 0 < v then JInfinity else JNegInfinity)
           else if w = 0 then (if 0 < v then JNum 0 else JNegZero)
           else JNum w))"

subsection \<open>The operations on numbers\<close>

text \<open>The sign bit of a number, its value when it is finite, and the zero and the
  infinity of a given sign.\<close>

definition negative :: "jsval \<Rightarrow> bool" where
  "negative a = (case a of JNum v \<Rightarrow> v < 0 | JNegZero \<Rightarrow> True | JNegInfinity \<Rightarrow> True | _ \<Rightarrow> False)"

definition realOf :: "jsval \<Rightarrow> real" where
  "realOf a = (case a of JNum v \<Rightarrow> v | _ \<Rightarrow> 0)"

definition isZero :: "jsval \<Rightarrow> bool" where
  "isZero a = (a = JNum 0 \<or> a = JNegZero)"

definition isInfinite :: "jsval \<Rightarrow> bool" where
  "isInfinite a = (a = JInfinity \<or> a = JNegInfinity)"

definition signedZero :: "bool \<Rightarrow> jsval" where
  "signedZero neg = (if neg then JNegZero else JNum 0)"

definition signedInfinity :: "bool \<Rightarrow> jsval" where
  "signedInfinity neg = (if neg then JNegInfinity else JInfinity)"

text \<open>
  Negation, sum, difference, product, quotient and square root of numbers, and the
  comparison \<open>a < b\<close> (false when an operand is \<^verbatim>\<open>NaN\<close>). A sum that is exactly zero is
  \<^verbatim>\<open>+0\<close>, unless both operands are \<^verbatim>\<open>-0\<close>.
\<close>

definition ieeeNeg :: "jsval \<Rightarrow> jsval" where
  "ieeeNeg a =
    (case a of
       JNum v \<Rightarrow> if v = 0 then JNegZero else JNum (- v)
     | JNegZero \<Rightarrow> JNum 0
     | JInfinity \<Rightarrow> JNegInfinity
     | JNegInfinity \<Rightarrow> JInfinity
     | _ \<Rightarrow> a)"

definition ieeeAdd :: "jsval \<Rightarrow> jsval \<Rightarrow> jsval" where
  "ieeeAdd a b =
    (if a = JNaN \<or> b = JNaN then JNaN
     else if a = JInfinity then (if b = JNegInfinity then JNaN else JInfinity)
     else if a = JNegInfinity then (if b = JInfinity then JNaN else JNegInfinity)
     else if isInfinite b then b
     else if realOf a + realOf b = 0
       then (if a = JNegZero \<and> b = JNegZero then JNegZero else JNum 0)
     else round64 (realOf a + realOf b))"

definition ieeeSub :: "jsval \<Rightarrow> jsval \<Rightarrow> jsval" where
  "ieeeSub a b = ieeeAdd a (ieeeNeg b)"

definition ieeeMul :: "jsval \<Rightarrow> jsval \<Rightarrow> jsval" where
  "ieeeMul a b =
    (if a = JNaN \<or> b = JNaN then JNaN
     else if isInfinite a \<or> isInfinite b
       then (if isZero a \<or> isZero b then JNaN else signedInfinity (negative a \<noteq> negative b))
     else if isZero a \<or> isZero b then signedZero (negative a \<noteq> negative b)
     else round64 (realOf a * realOf b))"

definition ieeeDiv :: "jsval \<Rightarrow> jsval \<Rightarrow> jsval" where
  "ieeeDiv a b =
    (if a = JNaN \<or> b = JNaN then JNaN
     else if isInfinite a
       then (if isInfinite b then JNaN else signedInfinity (negative a \<noteq> negative b))
     else if isInfinite b then signedZero (negative a \<noteq> negative b)
     else if isZero b
       then (if isZero a then JNaN else signedInfinity (negative a \<noteq> negative b))
     else if isZero a then signedZero (negative a \<noteq> negative b)
     else round64 (realOf a / realOf b))"

definition ieeeSqrt :: "jsval \<Rightarrow> jsval" where
  "ieeeSqrt a =
    (case a of
       JNum v \<Rightarrow> if v < 0 then JNaN else round64 (sqrt v)
     | JNegZero \<Rightarrow> JNegZero
     | JInfinity \<Rightarrow> JInfinity
     | _ \<Rightarrow> JNaN)"

definition ieeeLess :: "jsval \<Rightarrow> jsval \<Rightarrow> bool" where
  "ieeeLess a b =
    (if a = JNaN \<or> b = JNaN then False
     else if a = JInfinity \<or> b = JNegInfinity then False
     else if a = JNegInfinity \<or> b = JInfinity then True
     else realOf a < realOf b)"

subsection \<open>Texts and numbers\<close>

text \<open>
  The decimal integers: the value of a text of digits, and the number that a text of
  digits with an optional sign denotes (the decimal value, rounded).
\<close>

fun digitsValue :: "string \<Rightarrow> nat \<Rightarrow> nat option" where
  "digitsValue [] acc = Some acc"
| "digitsValue (c # cs) acc =
    (let d = (of_char c :: nat) in
     if 48 \<le> d \<and> d \<le> 57 then digitsValue cs (10 * acc + (d - 48)) else None)"

definition numberLiteral :: "string \<Rightarrow> jsval option" where
  "numberLiteral s =
    (case s of
       [] \<Rightarrow> None
     | c # cs \<Rightarrow>
         if c = CHR ''-''
         then (if cs = [] then None
               else map_option (\<lambda>n. ieeeNeg (round64 (real n))) (digitsValue cs 0))
         else map_option (\<lambda>n. round64 (real n)) (digitsValue s 0))"

text \<open>
  The conversion of a value to a string. An integer up to \<open>pow2 53\<close> in absolute value is
  printed with all its digits. For every other finite number JavaScript prints the
  shortest decimal text that denotes it; this conversion does not cover these numbers
  (it answers with the text \<^verbatim>\<open>NaN\<close>), nor the source text of a function.
\<close>

fun intercalate :: "string \<Rightarrow> string list \<Rightarrow> string" where
  "intercalate sep [] = []"
| "intercalate sep [s] = s"
| "intercalate sep (s # t # ss) = s @ sep @ intercalate sep (t # ss)"

fun demoToString :: "jsval \<Rightarrow> string" where
  "demoToString (JStr s) = s"
| "demoToString (JNum n) =
    (if n = of_int \<lfloor>n\<rfloor> \<and> \<bar>n\<bar> \<le> 2 ^ 53
     then (if n < 0 then ''-'' @ decimal (nat (- \<lfloor>n\<rfloor>)) else decimal (nat \<lfloor>n\<rfloor>))
     else ''NaN'')"
| "demoToString JNegZero = ''0''"
| "demoToString JInfinity = ''Infinity''"
| "demoToString JNegInfinity = ''-Infinity''"
| "demoToString JNaN = ''NaN''"
| "demoToString (JBool b) = (if b then ''true'' else ''false'')"
| "demoToString JNull = ''null''"
| "demoToString JUndefined = ''undefined''"
| "demoToString (JArr vs) =
    intercalate '',''
      (map (\<lambda>v. if v = JUndefined \<or> v = JNull then [] else demoToString v) vs)"
| "demoToString (JObj entries) = ''[object Object]''"
| "demoToString JFunction = ''function () { [native code] }''"

text \<open>
  The conversions of an operand: to a primitive value (arrays, objects and functions
  become strings) and to a number. Of the texts that denote a number, the conversion of
  a string covers the empty text, the decimal integers and the infinities; a decimal
  fraction, an exponent or a hexadecimal literal in a string is not covered (the answer
  is \<^verbatim>\<open>NaN\<close>).
\<close>

definition toPrimitive :: "jsval \<Rightarrow> jsval" where
  "toPrimitive v =
    (case v of
       JArr vs \<Rightarrow> JStr (demoToString v)
     | JObj entries \<Rightarrow> JStr (demoToString v)
     | JFunction \<Rightarrow> JStr (demoToString v)
     | _ \<Rightarrow> v)"

definition stringToNumber :: "string \<Rightarrow> jsval" where
  "stringToNumber s =
    (let t = trim s in
     if t = [] then JNum 0
     else if t = ''Infinity'' \<or> t = ''+Infinity'' then JInfinity
     else if t = ''-Infinity'' then JNegInfinity
     else if hd t = CHR ''+''
       then (if tl t = [] then JNaN
             else (case digitsValue (tl t) 0 of Some n \<Rightarrow> round64 (real n) | None \<Rightarrow> JNaN))
     else (case numberLiteral t of Some n \<Rightarrow> n | None \<Rightarrow> JNaN))"

definition toNumber :: "jsval \<Rightarrow> jsval" where
  "toNumber v =
    (case toPrimitive v of
       JUndefined \<Rightarrow> JNaN
     | JNull \<Rightarrow> JNum 0
     | JBool b \<Rightarrow> JNum (if b then 1 else 0)
     | JStr s \<Rightarrow> stringToNumber s
     | n \<Rightarrow> n)"

text \<open>The order of strings: by the codes of their characters, the shorter of two
  strings first when it begins the other.\<close>

fun stringLess :: "string \<Rightarrow> string \<Rightarrow> bool" where
  "stringLess [] [] = False"
| "stringLess [] (d # ds) = True"
| "stringLess (c # cs) [] = False"
| "stringLess (c # cs) (d # ds) =
    ((of_char c :: nat) < of_char d \<or> (c = d \<and> stringLess cs ds))"

subsection \<open>The operators\<close>

text \<open>
  The operators convert their operands and then compute on numbers; \<^verbatim>\<open>+\<close> concatenates
  when an operand is a string, and the comparisons compare two strings as strings.
  \<^verbatim>\<open>Math.cos\<close> and \<^verbatim>\<open>Math.sin\<close> are exact at zero; elsewhere they are taken to be the
  correctly rounded cosine and sine (an implementation may differ in the last digit).
\<close>

definition jsSub :: "jsval \<Rightarrow> jsval \<Rightarrow> jsval" where
  "jsSub a b = ieeeSub (toNumber a) (toNumber b)"

definition jsDiv :: "jsval \<Rightarrow> jsval \<Rightarrow> jsval" where
  "jsDiv a b = ieeeDiv (toNumber a) (toNumber b)"

definition jsMul :: "jsval \<Rightarrow> jsval \<Rightarrow> jsval" where
  "jsMul a b = ieeeMul (toNumber a) (toNumber b)"

definition jsAdd :: "jsval \<Rightarrow> jsval \<Rightarrow> jsval" where
  "jsAdd a b =
    (case (toPrimitive a, toPrimitive b) of
       (JStr s, pb) \<Rightarrow> JStr (s @ demoToString pb)
     | (pa, JStr t) \<Rightarrow> JStr (demoToString pa @ t)
     | (pa, pb) \<Rightarrow> ieeeAdd (toNumber pa) (toNumber pb))"

definition jsLess :: "jsval \<Rightarrow> jsval \<Rightarrow> bool" where
  "jsLess a b =
    (case (toPrimitive a, toPrimitive b) of
       (JStr s, JStr t) \<Rightarrow> stringLess s t
     | (pa, pb) \<Rightarrow> ieeeLess (toNumber pa) (toNumber pb))"

definition jsGt :: "jsval \<Rightarrow> jsval \<Rightarrow> bool" where
  "jsGt a b = jsLess b a"

definition jsLe :: "jsval \<Rightarrow> jsval \<Rightarrow> bool" where
  "jsLe a b =
    (case (toPrimitive a, toPrimitive b) of
       (JStr s, JStr t) \<Rightarrow> \<not> stringLess t s
     | (pa, pb) \<Rightarrow> toNumber pa \<noteq> JNaN \<and> toNumber pb \<noteq> JNaN \<and> \<not> ieeeLess (toNumber pb) (toNumber pa))"

definition jsSqrt :: "jsval \<Rightarrow> jsval" where
  "jsSqrt a = ieeeSqrt (toNumber a)"

definition jsCos :: "jsval \<Rightarrow> jsval" where
  "jsCos a =
    (case toNumber a of
       JNum v \<Rightarrow> if v = 0 then JNum 1 else round64 (cos v)
     | JNegZero \<Rightarrow> JNum 1
     | _ \<Rightarrow> JNaN)"

definition jsSin :: "jsval \<Rightarrow> jsval" where
  "jsSin a =
    (case toNumber a of
       JNum v \<Rightarrow> if v = 0 then JNum 0 else round64 (sin v)
     | JNegZero \<Rightarrow> JNegZero
     | _ \<Rightarrow> JNaN)"

text \<open>\<^verbatim>\<open>Math.PI\<close> is the number nearest to \<open>\<pi>\<close>, 3.141592653589793.\<close>

definition jsPI :: jsval where
  "jsPI = JNum (884279719003555 / 281474976710656)"


subsection \<open>An evaluator and a registry\<close>

text \<open>
  The examples need an evaluator. This one stands for math.js on a few expressions
  only, on which it answers as math.js does:
  \<^item> the empty expression, whose value is \<^verbatim>\<open>undefined\<close>;
  \<^item> a decimal integer, with or without a minus sign;
  \<^item> \<^verbatim>\<open>2+3\<close> and \<^verbatim>\<open>7==7\<close>;
  \<^item> \<^verbatim>\<open>random()\<close>, a call of the scene's random number generator (the generator this
    evaluator stands for returns 0, 1, 2, ... in turn);
  \<^item> \<^verbatim>\<open>i!=1\<close> when the scope binds \<^verbatim>\<open>i\<close> to an integer;
  \<^item> a name that the scope binds (math.js looks a name up in the scope first);
  \<^item> the name \<^verbatim>\<open>foo\<close> when the scope does not bind it: math.js knows no function,
    constant or unit of that name and reports an undefined symbol.
  On every other expression it throws an error that says so; this is not what math.js
  does. Its registry knows the names of \<open>objTypes\<close>, and its scene objects are the
  records they were made from.
\<close>

definition isIdentifier :: "string \<Rightarrow> bool" where
  "isIdentifier s =
    (s \<noteq> []
     \<and> list_all (\<lambda>c. let d = (of_char c :: nat) in
           (65 \<le> d \<and> d \<le> 90) \<or> (97 \<le> d \<and> d \<le> 122) \<or> (48 \<le> d \<and> d \<le> 57) \<or> d = 95 \<or> d = 36) s
     \<and> \<not> (let d = (of_char (hd s) :: nat) in 48 \<le> d \<and> d \<le> 57)
     \<and> s \<notin> set [''true'', ''false'', ''null'', ''undefined'', ''NaN'', ''Infinity'',
                  ''mod'', ''to'', ''in'', ''and'', ''xor'', ''or'', ''not''])"

text \<open>The integer that the scope binds a name to, if it binds it to an integer.\<close>

definition boundInteger :: "ctx \<Rightarrow> string \<Rightarrow> real option" where
  "boundInteger scope k =
    (case map_of scope k of
       Some (JNum v) \<Rightarrow> if v = of_int \<lfloor>v\<rfloor> then Some v else None
     | _ \<Rightarrow> None)"

definition demoEvaluate :: "jsval \<Rightarrow> ctx \<Rightarrow> nat \<Rightarrow> (jsval, nat) outcome" where
  "demoEvaluate expr scope r =
    (case expr of
       JStr s \<Rightarrow>
         (case numberLiteral s of
            Some n \<Rightarrow> Returns n r
          | None \<Rightarrow>
             if s = [] then Returns JUndefined r
             else if s = ''2+3'' then Returns (JNum 5) r
             else if s = ''7==7'' then Returns (JBool True) r
             else if s = ''random()'' \<and> map_of scope ''random'' = Some JFunction
               then Returns (round64 (real r)) (Suc r)
             else
               (case (if s = ''i!=1'' then boundInteger scope ''i'' else None) of
                  Some i \<Rightarrow> Returns (JBool (i \<noteq> 1)) r
                | None \<Rightarrow>
                   (case (if isIdentifier s then map_of scope s else None) of
                      Some v \<Rightarrow> Returns v r
                    | None \<Rightarrow>
                       if s = ''foo'' then Throws (EvaluateError ''Undefined symbol foo'') r
                       else Throws
                         (EvaluateError ''an expression that this evaluator does not cover'') r)))
     | JArr es \<Rightarrow> Throws (EvaluateError ''an expression that this evaluator does not cover'') r
     | _ \<Rightarrow> Throws (TypeError ''Unexpected type of argument in function evaluate'') r)"

definition demoHost :: "(nat, jsval) host" where
  "demoHost =
    \<lparr>opSub = jsSub, opDiv = jsDiv, opAdd = jsAdd, opMul = jsMul, opGt = jsGt, opLe = jsLe,
     mathSqrt = jsSqrt, mathCos = jsCos, mathSin = jsSin, mathPI = jsPI,
     evaluate = demoEvaluate, toString = demoToString,
     sceneObjs = (\<lambda>t. if t \<in> set objTypes then Some Returns else None)\<rparr>"

text \<open>An empty module definition, and a module object without points and parameters.\<close>

definition demoDef :: ModuleDef where
  "demoDef = \<lparr>numPoints = 0, paramsDef = [], vars = None, objsDef = [], maxLoopLength = None\<rparr>"

definition demoObj :: "ModuleDef \<Rightarrow> jsval ModuleObj" where
  "demoObj def = \<lparr>moduleDef = def, points = [], paramsObj = [], objs = [], error = None,
     notDone = False\<rparr>"

section \<open>Properties of the example engine\<close>

subsection \<open>Rounding\<close>

lemma pow2_pos: "0 < pow2 k"
  by (simp add: pow2_def)



lemma roundEven_of_int [simp]: "roundEven (of_int k) = k"
  by (simp add: roundEven_def)


lemma roundEven_nonpos: "q \<le> 0 \<Longrightarrow> roundEven q \<le> 0"
proof -
  assume q: "q \<le> 0"
  show ?thesis
  proof (cases "q = 0")
    case True then show ?thesis using roundEven_of_int [of 0] by simp
  next
    case False
    then have "\<lfloor>q\<rfloor> \<le> - 1" using q by linarith
    then show ?thesis by (auto simp: roundEven_def Let_def)
  qed
qed


lemma round64_dyadic:
  assumes "z \<noteq> 0" and "\<bar>z\<bar> < 2 ^ 53" and "n \<le> 1022"
  shows "round64 (of_int z / 2 ^ n) = JNum (of_int z / 2 ^ n)"
proof -
  define v :: real where "v = of_int z / 2 ^ n"
  have "1 \<le> \<bar>z\<bar>" using assms(1) by simp
  then have "(1::real) \<le> of_int \<bar>z\<bar>" by (simp only: of_int_1_le_iff)
  then have z1: "1 \<le> \<bar>real_of_int z\<bar>" by simp
  have "real_of_int \<bar>z\<bar> < 2 ^ 53" using assms(2) by (simp only: of_int_less_numeral_power_cancel_iff)
  then have z2: "\<bar>real_of_int z\<bar> < 2 ^ 53" by simp
  have av: "\<bar>v\<bar> = \<bar>real_of_int z\<bar> / 2 ^ n" by (simp add: v_def abs_divide)
  have v1: "1 / 2 ^ n \<le> \<bar>v\<bar>" unfolding av using z1 by (simp add: divide_right_mono)
  have v2: "\<bar>v\<bar> < 2 ^ 53 / 2 ^ n" unfolding av using z2 by (simp add: divide_strict_right_mono)
  have pos: "0 < \<bar>v\<bar>" using v1 by (smt (verit) divide_pos_pos zero_less_power)
  define k where "k = \<lfloor>log 2 \<bar>v\<bar>\<rfloor>"
  have "2 powr (- real n) \<le> \<bar>v\<bar>"
    using v1 by (simp add: powr_minus powr_realpow divide_inverse)
  then have "- real n \<le> log 2 \<bar>v\<bar>" using pos by (simp add: le_log_iff)
  then have kn: "- int n \<le> k" unfolding k_def by (simp add: le_floor_iff)
  have "\<bar>v\<bar> < 2 powr (53 - real n)"
  proof -
    have "(2::real) powr (53 - real n) = 2 powr 53 / 2 powr real n" by (simp add: powr_diff)
    also have "\<dots> = 2 ^ 53 / 2 ^ n" by (simp add: powr_realpow)
    finally show ?thesis using v2 by simp
  qed
  then have "log 2 \<bar>v\<bar> < 53 - real n" using pos by (simp add: log_less_iff)
  then have k52: "k \<le> 52 - int n" unfolding k_def by linarith
  have bin: "binade v = k" using kn assms(3) by (simp add: binade_def k_def)
  define j where "j = nat (52 - k)"
  have jn: "n \<le> j" using k52 by (simp add: j_def)
  have ulp: "pow2 (k - 52) = 1 / 2 ^ j"
  proof (cases "k = 52")
    case True then show ?thesis by (simp add: pow2_def j_def)
  next
    case False
    then have "\<not> 0 \<le> k - 52" using k52 by simp
    then show ?thesis by (simp add: pow2_def j_def)
  qed
  have "(2::real) ^ j = 2 ^ n * 2 ^ (j - n)"
    using jn by (simp add: power_add [symmetric])
  then have q: "v / pow2 (k - 52) = of_int (z * 2 ^ (j - n))"
    by (simp add: ulp v_def)
  have w: "pow2 (k - 52) * of_int (roundEven (v / pow2 (k - 52))) = v"
    unfolding q roundEven_of_int using \<open>(2::real) ^ j = 2 ^ n * 2 ^ (j - n)\<close>
    by (simp add: ulp v_def)
  have "v \<noteq> 0" using pos by auto
  moreover have "\<not> 2 ^ 1024 \<le> \<bar>v\<bar>"
  proof -
    have "\<bar>v\<bar> \<le> \<bar>real_of_int z\<bar>" unfolding av by (simp add: divide_le_eq_1 field_simps mult_le_cancel_left1)
    moreover have "(2::real) ^ 53 \<le> 2 ^ 1024" by (rule power_increasing) simp_all
    ultimately show ?thesis using z2 by linarith
  qed
  ultimately show ?thesis
    unfolding v_def [symmetric] by (simp add: round64_def bin Let_def w)
qed

lemma round64_of_int:
  assumes "z \<noteq> 0" and "\<bar>z\<bar> < 2 ^ 53"
  shows "round64 (of_int z) = JNum (of_int z)"
  using round64_dyadic [OF assms, of 0] by simp

lemma round64_numeral [simp]:
  "(numeral n :: int) < 2 ^ 53 \<Longrightarrow> round64 (numeral n) = JNum (numeral n)"
  using round64_of_int [of "numeral n"] by simp

lemma round64_neg_numeral [simp]:
  "(numeral n :: int) < 2 ^ 53 \<Longrightarrow> round64 (- numeral n) = JNum (- numeral n)"
  using round64_of_int [of "- numeral n"] by simp

lemma round64_one [simp]: "round64 1 = JNum 1"
  using round64_of_int [of 1] by simp

lemma round64_neg_one [simp]: "round64 (- 1) = JNum (- 1)"
  using round64_of_int [of "- 1"] by simp

lemma round64_zero [simp]: "round64 0 = JNum 0"
  by (simp add: round64_def)

lemma round64_negative:
  assumes "v < 0"
  shows "round64 v = JNegZero \<or> round64 v = JNegInfinity \<or> (\<exists>w<0. round64 v = JNum w)"
proof -
  define ulp where "ulp = pow2 (binade v - 52)"
  define w where "w = ulp * of_int (roundEven (v / ulp))"
  have "0 < ulp" unfolding ulp_def by (rule pow2_pos)
  then have "v / ulp \<le> 0" using assms by (simp add: divide_le_0_iff)
  then have "roundEven (v / ulp) \<le> 0" by (rule roundEven_nonpos)
  then have "w \<le> 0" unfolding w_def using \<open>0 < ulp\<close>
    by (simp add: mult_le_0_iff)
  then show ?thesis
    using assms by (auto simp: round64_def Let_def ulp_def [symmetric] w_def [symmetric])
qed

subsection \<open>The operators of the example engine on numbers\<close>

lemma toPrimitive_primitive [simp]:
  "toPrimitive (JNum a) = JNum a"
  "toPrimitive JNegZero = JNegZero"
  "toPrimitive JInfinity = JInfinity"
  "toPrimitive JNegInfinity = JNegInfinity"
  "toPrimitive JNaN = JNaN"
  "toPrimitive JUndefined = JUndefined"
  "toPrimitive JNull = JNull"
  "toPrimitive (JBool c) = JBool c"
  "toPrimitive (JStr s) = JStr s"
  by (simp_all add: toPrimitive_def)

lemma toNumber_number [simp]:
  "toNumber (JNum a) = JNum a"
  "toNumber JNegZero = JNegZero"
  "toNumber JInfinity = JInfinity"
  "toNumber JNegInfinity = JNegInfinity"
  "toNumber JNaN = JNaN"
  by (simp_all add: toNumber_def)

lemma jsAdd_numbers:
  "jsAdd (JNum a) (JNum b) = (if a + b = 0 then JNum 0 else round64 (a + b))"
  "jsAdd JNegZero (JNum b) = (if b = 0 then JNum 0 else round64 b)"
  "jsAdd JNegInfinity (JNum b) = JNegInfinity"
  by (simp_all add: jsAdd_def ieeeAdd_def isInfinite_def realOf_def)

lemma jsSub_numbers:
  "jsSub (JNum a) (JNum b) = (if a - b = 0 then JNum 0 else round64 (a - b))"
  "jsSub (JNum a) JNegZero = (if a = 0 then JNum 0 else round64 a)"
  by (simp_all add: jsSub_def ieeeSub_def ieeeNeg_def ieeeAdd_def isInfinite_def realOf_def)

lemma jsMath_numbers:
  "jsSqrt (JNum a) = (if a < 0 then JNaN else round64 (sqrt a))"
  "jsCos (JNum a) = (if a = 0 then JNum 1 else round64 (cos a))"
  "jsSin (JNum a) = (if a = 0 then JNum 0 else round64 (sin a))"
  by (simp_all add: jsSqrt_def ieeeSqrt_def jsCos_def jsSin_def)

lemma jsMul_numbers:
  "jsMul (JNum a) (JNum b) =
     (if a = 0 \<or> b = 0 then signedZero ((a < 0) \<noteq> (b < 0)) else round64 (a * b))"
  by (simp add: jsMul_def ieeeMul_def isInfinite_def isZero_def realOf_def negative_def)

lemma jsDiv_numbers:
  "jsDiv (JNum a) (JNum b) =
     (if b = 0 then (if a = 0 then JNaN else signedInfinity (a < 0))
      else if a = 0 then signedZero (b < 0)
      else round64 (a / b))"
  by (simp add: jsDiv_def ieeeDiv_def isInfinite_def isZero_def realOf_def negative_def)

lemma jsLe_numbers:
  "jsLe (JNum a) (JNum b) = (a \<le> b)"
  "jsLe JNegZero (JNum b) = (0 \<le> b)"
  "jsLe JNegInfinity (JNum b) = True"
  by (auto simp: jsLe_def ieeeLess_def realOf_def)

lemma jsGt_numbers:
  "jsGt (JNum a) (JNum b) = (a > b)"
  by (auto simp: jsGt_def jsLess_def ieeeLess_def realOf_def)

lemmas engine_simps = jsAdd_numbers jsSub_numbers jsMul_numbers jsDiv_numbers jsLe_numbers
  jsGt_numbers jsMath_numbers signedZero_def signedInfinity_def

section \<open>The reflection law of the tilted mirror\<close>










subsection \<open>A reflection that is not exact\<close>








section \<open>Properties of the expansion engine\<close>

subsection \<open>Outcomes\<close>

lemma bind_simps [simp]:
  "bind (Returns a s) f = f a s"
  "bind (Throws e s) f = Throws e s"
  by (simp_all add: bind_def)

lemma catch_simps [simp]:
  "catch (Returns a s) w = Returns a s"
  "catch (Throws e s) w = Throws (w e) s"
  by (simp_all add: catch_def)

lemma andThen_simps [simp]:
  "andThen None f = None"
  "andThen (Some (Throws e s)) f = Some (Throws e s)"
  "andThen (Some (Returns a s)) f = f a s"
  by (simp_all add: andThen_def)

lemma tryCatch_simps [simp]:
  "tryCatch None w = None"
  "tryCatch (Some res) w = Some (catch res w)"
  by (simp_all add: tryCatch_def)

subsection \<open>The loop over a range\<close>

lemma valueLoop_stop:
  "\<not> opLe e v b \<Longrightarrow> valueLoop e inner n v s b acc = Some (Inr acc)"
  by (subst valueLoop.simps) simp

lemma valueLoop_throw:
  "opLe e v b \<Longrightarrow> valueLoop e (Some (Inl er)) n v s b acc = Some (Inl er)"
  by (subst valueLoop.simps) simp


lemma loopValue_0 [simp]: "loopValue e v 0 = start v"
  by (simp add: loopValue_def)



lemma valueLoop_returns_only_outside:
  assumes "valueLoop e inner n v s b acc = Some res"
  shows "inner = Some (Inr ps) \<longrightarrow> (\<forall>u. Q u \<longrightarrow> opLe e u b \<and> Q (opAdd e u s)) \<longrightarrow> \<not> Q v"
proof (rule valueLoop.raw_induct
    [where P = "\<lambda>e inner n v s b acc res.
       inner = Some (Inr ps) \<longrightarrow> (\<forall>u. Q u \<longrightarrow> opLe e u b \<and> Q (opAdd e u s)) \<longrightarrow> \<not> Q v",
     OF _ assms],
    goal_cases)
  case (1 loop e inner n v s b acc res)
  show ?case
  proof (intro impI notI)
    assume inner: "inner = Some (Inr ps)"
      and inv: "\<forall>u. Q u \<longrightarrow> opLe e u b \<and> Q (opAdd e u s)" and v: "Q v"
    from inv v have le: "opLe e v b" and nxt: "Q (opAdd e v s)" by auto
    from 1(2) inner le have "loop e inner n (opAdd e v s) s b (acc @ map (assign n v) ps) = Some res"
      by simp
    from 1(1) [OF this] inner inv have "\<not> Q (opAdd e v s)" by simp
    with nxt show False by simp
  qed
qed

lemma valueLoop_never_ends:
  assumes "\<And>u. Q u \<Longrightarrow> opLe e u b \<and> Q (opAdd e u s)" and "Q v"
  shows "valueLoop e (Some (Inr ps)) n v s b acc = None"
proof (cases "valueLoop e (Some (Inr ps)) n v s b acc")
  case None
  then show ?thesis .
next
  case (Some res)
  from valueLoop_returns_only_outside [OF Some, of ps Q] assms show ?thesis by blast
qed

subsection \<open>Iterating over ranges\<close>

lemmas demo_defs = demoHost_def demoEvaluate_def numberLiteral_def demoDef_def
  objTypes_def ieeeNeg_def boundInteger_def isIdentifier_def
lemmas parse_defs = parseLoopVars_def parseVariableRange_def element_def trim_def isWhiteSpace_def




text \<open>Adding -1 to a number that is not above zero gives a number that is not above zero.\<close>

lemma demo_step_down:
  assumes "u = JNegInfinity \<or> u = JNegZero \<or> (\<exists>w\<le>0. u = JNum w)"
  shows "jsLe u (JNum 0)
    \<and> (jsAdd u (JNum (- 1)) = JNegInfinity \<or> jsAdd u (JNum (- 1)) = JNegZero
        \<or> (\<exists>w\<le>0. jsAdd u (JNum (- 1)) = JNum w))"
proof -
  consider "u = JNegInfinity" | "u = JNegZero" | w where "w \<le> 0" "u = JNum w"
    using assms by blast
  then show ?thesis
  proof cases
    case 1
    then show ?thesis by (simp add: engine_simps)
  next
    case 2
    then show ?thesis by (simp add: engine_simps)
  next
    case 3
    then have "w + - 1 < 0" by simp
    from round64_negative [OF this] 3 show ?thesis
      by (auto simp: engine_simps)
  qed
qed


lemma expandLoopVars_never_ends:
  assumes "\<not> opGt e (loopLength e v) (JNum (maxLoopLengthOr1000 m))"
    and "expandLoopVars e m params vs = Some (Inr inner)"
    and "\<And>u. Q u \<Longrightarrow> opLe e u (end' v) \<and> Q (opAdd e u (step v))" and "Q (start v)"
  shows "expandLoopVars e m params (v # vs) = None"
  using assms(1,2) valueLoop_never_ends [of Q e "end' v" "step v" "start v", OF assms(3,4)]
  by simp

text \<open>
  Claim C3 fails on the code. The range \<^verbatim>\<open>i=0:-1:0\<close> has a step other than zero, its
  loop length \<open>(0 - 0) / (-1) + 1 = 1\<close> is within the bound, and its loop visits 0, -1,
  -2, ... without end: \<open>expandArray\<close> does not return.
\<close>

theorem expandArray_negative_step_never_returns:
  "expandArray demoHost demoDef [JObj [(''for'', JStr ''i=0:-1:0'')]] [] 0 = None"
proof -
  let ?v = "\<lparr>name = ''i'', start = JNum 0, step = JNum (- 1), end' = JNum 0, defaultVal = JNum 0\<rparr>"
  have parse: "parseLoopVars demoHost (JStr ''i=0:-1:0'') [] 0 = Returns [?v] 0"
    by (simp add: parse_defs demo_defs)
  have guard: "\<not> opGt demoHost (loopLength demoHost ?v) (JNum (maxLoopLengthOr1000 demoDef))"
    by (simp add: loopLength_def maxLoopLengthOr1000_def demoDef_def demoHost_def engine_simps)
  have "expandLoopVars demoHost demoDef [] [?v] = None"
  proof (rule expandLoopVars_never_ends [OF guard,
      where Q = "\<lambda>u. u = JNegInfinity \<or> u = JNegZero \<or> (\<exists>w\<le>0. u = JNum w)"])
    show "expandLoopVars demoHost demoDef [] [] = Some (Inr [[]])" by simp
  next
    fix u
    assume "u = JNegInfinity \<or> u = JNegZero \<or> (\<exists>w\<le>0. u = JNum w)"
    from demo_step_down [OF this]
    show "opLe demoHost u (end' ?v)
        \<and> (opAdd demoHost u (step ?v) = JNegInfinity \<or> opAdd demoHost u (step ?v) = JNegZero
           \<or> (\<exists>w\<le>0. opAdd demoHost u (step ?v) = JNum w))"
      by (simp add: demoHost_def)
  qed simp
  then show ?thesis by (simp add: parse)
qed

lemma expandArray_append:
  "expandArray h m (xs @ ys) params r =
     andThen (expandArray h m xs params r) (\<lambda>out1 r1.
     andThen (expandArray h m ys params r1) (\<lambda>out2 r2.
     Some (Returns (out1 @ out2) r2)))"
proof (induction xs arbitrary: r)
  case Nil
  show ?case
    by (cases "expandArray h m ys params r" rule: option.exhaust[case_names None Some])
      (auto simp: andThen_def split: outcome.splits)
next
  case (Cons x xs)
  show ?case
    by (simp add: Cons.IH) (auto simp: andThen_def split: option.splits outcome.splits)
qed

lemma expandLoopVars_too_large:
  assumes "\<forall>u \<in> set before. \<not> opGt e (loopLength e u) (JNum (maxLoopLengthOr1000 m))
             \<and> opLe e (start u) (end' u)"
    and "opGt e (loopLength e v) (JNum (maxLoopLengthOr1000 m))"
  shows "expandLoopVars e m params (before @ v # after) = Some (Inl (LoopVariableTooLarge (name v)))"
  using assms(1)
proof (induction before)
  case Nil
  show ?case using assms(2) by simp
next
  case (Cons u us)
  then have "expandLoopVars e m params (us @ v # after) = Some (Inl (LoopVariableTooLarge (name v)))"
    and "\<not> opGt e (loopLength e u) (JNum (maxLoopLengthOr1000 m))" and "opLe e (start u) (end' u)"
    by simp_all
  then show ?case by (simp add: valueLoop_throw)
qed

text \<open>
  Claim C2, as amended. Let an element of the array have a \<^verbatim>\<open>for\<close> key whose ranges
  parse, and let the elements before it expand.
  \<^item> If the loop length of one of the ranges, \<^verbatim>\<open>(end - start) / step + 1\<close> as the engine
    computes it, is greater than the bound (\<^verbatim>\<open>maxLoopLength\<close>, or 1000 when that is
    absent or zero), and every range before it has a loop length that is not greater
    than the bound and a start that is \<^verbatim>\<open><=\<close> its end, then \<open>expandArray\<close> throws the
    error that names this variable, wrapped by the \<^verbatim>\<open>catch\<close> of \<open>expandArray\<close>.
  \<^item> If the ranges expand to more bindings than the bound, \<open>expandArray\<close> throws the
    error of the whole loop, which names no variable.
  In both cases \<open>expandArray\<close> returns no element at all.
\<close>

theorem expandArray_loop_too_large:
  assumes "expandArray h m pre params r0 = Some (Returns out r)"
    and "map_of entries ''for'' = Some forObj"
    and "parseLoopVars h forObj params r = Returns loopVars r'"
  shows "(\<forall>before v after.
            loopVars = before @ v # after
          \<and> (\<forall>u \<in> set before. \<not> opGt h (loopLength h u) (JNum (maxLoopLengthOr1000 m))
                 \<and> opLe h (start u) (end' u))
          \<and> opGt h (loopLength h v) (JNum (maxLoopLengthOr1000 m))
          \<longrightarrow> expandArray h m (pre @ JObj entries # arr) params r0 =
                Some (Throws (ExpandArrayError (JObj entries) params
                                (LoopVariableTooLarge (name v))) r'))
    \<and> (\<forall>loopParams.
            expandLoopVars h m params loopVars = Some (Inr loopParams)
          \<and> maxLoopLengthOr1000 m < real (length loopParams)
          \<longrightarrow> expandArray h m (pre @ JObj entries # arr) params r0 =
                Some (Throws (ExpandArrayError (JObj entries) params LoopTooLarge) r'))"
proof (intro conjI allI impI)
  fix before v after
  assume "loopVars = before @ v # after
          \<and> (\<forall>u \<in> set before. \<not> opGt h (loopLength h u) (JNum (maxLoopLengthOr1000 m))
                 \<and> opLe h (start u) (end' u))
          \<and> opGt h (loopLength h v) (JNum (maxLoopLengthOr1000 m))"
  then have "expandLoopVars h m params loopVars = Some (Inl (LoopVariableTooLarge (name v)))"
    using expandLoopVars_too_large [of before h m v params after] by blast
  then have "expandElement h m (JObj entries) params r = Some (Throws (LoopVariableTooLarge (name v)) r')"
    using assms(2,3) by simp
  then show "expandArray h m (pre @ JObj entries # arr) params r0 =
                Some (Throws (ExpandArrayError (JObj entries) params
                                (LoopVariableTooLarge (name v))) r')"
    by (simp add: expandArray_append assms(1))
next
  fix loopParams
  assume "expandLoopVars h m params loopVars = Some (Inr loopParams)
          \<and> maxLoopLengthOr1000 m < real (length loopParams)"
  then have "expandElement h m (JObj entries) params r = Some (Throws LoopTooLarge r')"
    using assms(2,3) by simp
  then show "expandArray h m (pre @ JObj entries # arr) params r0 =
                Some (Throws (ExpandArrayError (JObj entries) params LoopTooLarge) r')"
    by (simp add: expandArray_append assms(1))
qed

text \<open>
  The range \<^verbatim>\<open>x=0:1:1000\<close> has the loop length 1001; two ranges of two values each
  exceed a bound of 3.
\<close>

theorem expandArray_loop_too_large_witness:
  "expandArray demoHost demoDef [JObj [(''for'', JStr ''x=0:1:1000'')]] [] 0 =
     Some (Throws (ExpandArrayError (JObj [(''for'', JStr ''x=0:1:1000'')]) []
                     (LoopVariableTooLarge ''x'')) 0)
   \<and> expandArray demoHost (demoDef\<lparr>maxLoopLength := Some 3\<rparr>)
       [JObj [(''for'', JArr [JStr ''i=0:1:1'', JStr ''j=0:1:1''])]] [] 0 =
     Some (Throws (ExpandArrayError (JObj [(''for'', JArr [JStr ''i=0:1:1'', JStr ''j=0:1:1''])]) []
                     LoopTooLarge) 0)"
proof -
  let ?x = "\<lparr>name = ''x'', start = JNum 0, step = JNum 1, end' = JNum 1000, defaultVal = JNum 0\<rparr>"
  let ?i = "\<lparr>name = ''i'', start = JNum 0, step = JNum 1, end' = JNum 1, defaultVal = JNum 0\<rparr>"
  let ?j = "\<lparr>name = ''j'', start = JNum 0, step = JNum 1, end' = JNum 1, defaultVal = JNum 0\<rparr>"
  let ?m = "demoDef\<lparr>maxLoopLength := Some 3\<rparr>"
  have px: "parseLoopVars demoHost (JStr ''x=0:1:1000'') [] 0 = Returns [?x] 0"
    by (simp add: parse_defs demo_defs)
  have pij: "parseLoopVars demoHost (JArr [JStr ''i=0:1:1'', JStr ''j=0:1:1'']) [] 0 = Returns [?i, ?j] 0"
    by (simp add: parse_defs demo_defs)
  have capx: "opGt demoHost (loopLength demoHost ?x) (JNum (maxLoopLengthOr1000 demoDef))"
    by (simp add: loopLength_def maxLoopLengthOr1000_def demoDef_def demoHost_def engine_simps)
  have cap3: "maxLoopLengthOr1000 ?m = 3"
    by (simp add: maxLoopLengthOr1000_def demoDef_def)
  have prod: "expandLoopVars demoHost ?m [] [?i, ?j] =
      Some (Inr [[(''j'', JNum 0), (''i'', JNum 0)], [(''j'', JNum 1), (''i'', JNum 0)],
                 [(''j'', JNum 0), (''i'', JNum 1)], [(''j'', JNum 1), (''i'', JNum 1)]])"
    by (simp add: cap3 loopLength_def demoHost_def engine_simps valueLoop.simps)
  have nil: "expandArray demoHost mm [] [] 0 = Some (Returns [] 0)" for mm
    by simp
  have mx: "map_of [(''for'', JStr ''x=0:1:1000'')] ''for'' = Some (JStr ''x=0:1:1000'')"
    by simp
  have mij: "map_of [(''for'', JArr [JStr ''i=0:1:1'', JStr ''j=0:1:1''])] ''for'' =
      Some (JArr [JStr ''i=0:1:1'', JStr ''j=0:1:1''])"
    by simp
  have "expandArray demoHost demoDef ([] @ JObj [(''for'', JStr ''x=0:1:1000'')] # []) [] 0 =
     Some (Throws (ExpandArrayError (JObj [(''for'', JStr ''x=0:1:1000'')]) []
                     (LoopVariableTooLarge (name ?x))) 0)"
    by (rule expandArray_loop_too_large [OF nil mx px, THEN conjunct1, rule_format,
          where before = "[]" and v = ?x and after = "[]"])
      (simp add: capx)
  moreover
  have "expandArray demoHost ?m ([] @ JObj [(''for'', JArr [JStr ''i=0:1:1'', JStr ''j=0:1:1''])] # []) [] 0 =
     Some (Throws (ExpandArrayError (JObj [(''for'', JArr [JStr ''i=0:1:1'', JStr ''j=0:1:1''])]) []
                     LoopTooLarge) 0)"
    by (rule expandArray_loop_too_large [OF nil mij pij, THEN conjunct2, rule_format])
      (rule conjI [OF prod], simp add: cap3)
  ultimately show ?thesis by simp
qed

text \<open>
  The claim as stated fails: after the empty range \<^verbatim>\<open>i=1:1:0\<close> the range
  \<^verbatim>\<open>j=0:1:2000\<close> of 2001 values is never looked at, and \<open>expandArray\<close> returns the empty
  array; and the error for two ranges whose four bindings exceed a bound of 3 names no
  variable.
\<close>

theorem expandArray_loop_too_large_counterexample:
  "expandArray demoHost demoDef
     [JObj [(''for'', JArr [JStr ''i=1:1:0'', JStr ''j=0:1:2000''])]] [] 0 = Some (Returns [] 0)
   \<and> expandArray demoHost (demoDef\<lparr>maxLoopLength := Some 3\<rparr>)
       [JObj [(''for'', JArr [JStr ''i=0:1:1'', JStr ''j=0:1:1''])]] [] 0 =
     Some (Throws (ExpandArrayError (JObj [(''for'', JArr [JStr ''i=0:1:1'', JStr ''j=0:1:1''])]) []
                     LoopTooLarge) 0)"
  by (simp add: parse_defs demo_defs loopLength_def engine_simps maxLoopLengthOr1000_def
      valueLoop_stop valueLoop.simps)

subsection \<open>Splitting strings\<close>

lemma split_no_separator: "c \<notin> set u \<Longrightarrow> split c u = [u]"
  by (induction u) auto

lemma split_at_separator: "c \<notin> set u \<Longrightarrow> split c (u @ c # w) = u # split c w"
  by (induction u) auto

lemma split_not_Nil: "split c s \<noteq> []"
  by (induction s) (auto split: list.splits)

lemma split_first:
  "split c s = p # ps \<Longrightarrow>
     c \<notin> set p \<and> (if ps = [] then s = p else \<exists>w. s = p @ c # w \<and> split c w = ps)"
proof (induction s arbitrary: p ps)
  case Nil
  then show ?case by auto
next
  case (Cons a s)
  show ?case
  proof (cases "a = c")
    case True
    with Cons.prems show ?thesis by (auto simp: split_not_Nil)
  next
    case False
    obtain q qs where q: "split c s = q # qs"
      using split_not_Nil [of c s] by (cases "split c s") auto
    with Cons.prems False have p: "p = a # q" and ps: "ps = qs" by auto
    from Cons.IH [OF q] have "c \<notin> set q"
      and "if qs = [] then s = q else \<exists>w. s = q @ c # w \<and> split c w = qs" by auto
    then show ?thesis using False p ps by (auto split: if_splits)
  qed
qed

lemma split_single_expression:
  "(let parts = split c str in length parts = 3 \<and> parts ! 0 = [] \<and> parts ! 2 = []) \<longleftrightarrow>
   (\<exists>expr. c \<notin> set expr \<and> str = c # expr @ [c])"
proof
  assume "let parts = split c str in length parts = 3 \<and> parts ! 0 = [] \<and> parts ! 2 = []"
  then have len: "length (split c str) = 3"
    and ends: "split c str ! 0 = []" "split c str ! 2 = []"
    by (simp_all add: Let_def)
  from len obtain p0 expr p2 where "split c str = [p0, expr, p2]"
    by (auto simp: length_Suc_conv numeral_3_eq_3)
  with ends have parts: "split c str = [[], expr, []]"
    by simp
  from split_first [OF parts] obtain w where w: "str = c # w" "split c w = [expr, []]"
    by auto
  from split_first [OF w(2)] obtain w' where w': "c \<notin> set expr" "w = expr @ c # w'" "split c w' = [[]]"
    by auto
  from split_first [OF w'(3)] have "w' = []" by simp
  with w w' show "\<exists>expr. c \<notin> set expr \<and> str = c # expr @ [c]" by auto
next
  assume "\<exists>expr. c \<notin> set expr \<and> str = c # expr @ [c]"
  then obtain expr where "c \<notin> set expr" "str = c # expr @ [c]" by blast
  then have "split c str = [[], expr, []]"
    by (simp add: split_at_separator)
  then show "let parts = split c str in length parts = 3 \<and> parts ! 0 = [] \<and> parts ! 2 = []"
    by simp
qed

subsection \<open>Ranges and strings\<close>

text \<open>
  Claim C7, as amended. Let \<open>n\<close>, \<open>a\<close>, \<open>s\<close>, \<open>b\<close> and \<open>d\<close> be texts without \<^verbatim>\<open>=\<close>, the last four also
  without \<^verbatim>\<open>:\<close>, and let the evaluator return \<open>startVal\<close>, \<open>stepVal\<close> and \<open>endVal\<close> for
  \<open>a\<close>, \<open>s\<close> and \<open>b\<close>, evaluated in this order against the binding context. Then
  \<open>parseVariableRange\<close> returns for \<^verbatim>\<open>n=a:s:b\<close> the range with the (trimmed) name and
  these three values, and with \<open>startVal\<close> as default; for \<^verbatim>\<open>n=a:s:b:d\<close> the default is
  the value of \<open>d\<close>, evaluated last.
\<close>

theorem parseVariableRange_valid:
  assumes "CHR ''='' \<notin> set (n @ a @ s @ b @ d)"
    and "CHR '':'' \<notin> set (a @ s @ b @ d)"
    and "evaluate h (JStr a) params r = Returns startVal r1"
    and "evaluate h (JStr s) params r1 = Returns stepVal r2"
    and "evaluate h (JStr b) params r2 = Returns endVal r3"
  shows "parseVariableRange h (JStr (n @ ''='' @ a @ '':'' @ s @ '':'' @ b)) params r =
      Returns \<lparr>name = trim n, start = startVal, step = stepVal, end' = endVal,
               defaultVal = startVal\<rparr> r3
    \<and> (\<forall>defaultVal r4. evaluate h (JStr d) params r3 = Returns defaultVal r4 \<longrightarrow>
         parseVariableRange h (JStr (n @ ''='' @ a @ '':'' @ s @ '':'' @ b @ '':'' @ d)) params r =
           Returns \<lparr>name = trim n, start = startVal, step = stepVal, end' = endVal,
                    defaultVal = defaultVal\<rparr> r4)"
proof -
  have n: "CHR ''='' \<notin> set n" and rest3: "CHR ''='' \<notin> set (a @ '':'' @ s @ '':'' @ b)"
    and rest4: "CHR ''='' \<notin> set (a @ '':'' @ s @ '':'' @ b @ '':'' @ d)"
    using assms(1) by auto
  have a: "CHR '':'' \<notin> set a" and s: "CHR '':'' \<notin> set s" and b: "CHR '':'' \<notin> set b"
    and d: "CHR '':'' \<notin> set d"
    using assms(2) by auto
  have parts3: "split CHR ''='' (n @ CHR ''='' # a @ CHR '':'' # s @ CHR '':'' # b) =
      [n, a @ CHR '':'' # s @ CHR '':'' # b]"
    using split_at_separator [OF n, of "a @ '':'' @ s @ '':'' @ b"] split_no_separator [OF rest3]
    by simp
  have parts4: "split CHR ''='' (n @ CHR ''='' # a @ CHR '':'' # s @ CHR '':'' # b @ CHR '':'' # d) =
      [n, a @ CHR '':'' # s @ CHR '':'' # b @ CHR '':'' # d]"
    using split_at_separator [OF n, of "a @ '':'' @ s @ '':'' @ b @ '':'' @ d"]
      split_no_separator [OF rest4]
    by simp
  have fields3: "split CHR '':'' (a @ CHR '':'' # s @ CHR '':'' # b) = [a, s, b]"
    using split_at_separator [OF a, of "s @ '':'' @ b"] split_at_separator [OF s, of b]
      split_no_separator [OF b]
    by simp
  have fields4: "split CHR '':'' (a @ CHR '':'' # s @ CHR '':'' # b @ CHR '':'' # d) = [a, s, b, d]"
    using split_at_separator [OF a, of "s @ '':'' @ b @ '':'' @ d"]
      split_at_separator [OF s, of "b @ '':'' @ d"] split_at_separator [OF b, of d]
      split_no_separator [OF d]
    by simp
  have three: "parseVariableRange h (JStr (n @ ''='' @ a @ '':'' @ s @ '':'' @ b)) params r =
      Returns \<lparr>name = trim n, start = startVal, step = stepVal, end' = endVal,
               defaultVal = startVal\<rparr> r3"
    unfolding parseVariableRange_def
    by (simp add: parts3 fields3 element_def assms(3-5))
  have four: "parseVariableRange h (JStr (n @ ''='' @ a @ '':'' @ s @ '':'' @ b @ '':'' @ d)) params r =
           Returns \<lparr>name = trim n, start = startVal, step = stepVal, end' = endVal,
                    defaultVal = defaultVal\<rparr> r4"
    if "evaluate h (JStr d) params r3 = Returns defaultVal r4" for defaultVal r4
    unfolding parseVariableRange_def
    by (simp add: parts4 fields4 element_def assms(3-5) that)
  from three four show ?thesis by blast
qed

text \<open>The descriptors \<^verbatim>\<open> w =0:1:5\<close> and \<^verbatim>\<open> w =0:1:5:2\<close>.\<close>

theorem parseVariableRange_valid_witness:
  "parseVariableRange demoHost (JStr '' w =0:1:5'') [] 0 =
     Returns \<lparr>name = ''w'', start = JNum 0, step = JNum 1, end' = JNum 5, defaultVal = JNum 0\<rparr> 0
   \<and> parseVariableRange demoHost (JStr '' w =0:1:5:2'') [] 0 =
     Returns \<lparr>name = ''w'', start = JNum 0, step = JNum 1, end' = JNum 5, defaultVal = JNum 2\<rparr> 0"
proof -
  have e0: "evaluate demoHost (JStr ''0'') [] 0 = Returns (JNum 0) 0"
    and e1: "evaluate demoHost (JStr ''1'') [] 0 = Returns (JNum 1) 0"
    and e5: "evaluate demoHost (JStr ''5'') [] 0 = Returns (JNum 5) 0"
    and e2: "evaluate demoHost (JStr ''2'') [] 0 = Returns (JNum 2) 0"
    by (simp_all add: demo_defs)
  have "CHR ''='' \<notin> set ('' w '' @ ''0'' @ ''1'' @ ''5'' @ ''2'')"
    and "CHR '':'' \<notin> set (''0'' @ ''1'' @ ''5'' @ ''2'')"
    by simp_all
  from parseVariableRange_valid [OF this e0 e1 e5] e2
  show ?thesis by (simp add: trim_def isWhiteSpace_def)
qed

text \<open>
  The claim as stated fails for a descriptor whose expressions contain \<^verbatim>\<open>=\<close>: the
  descriptor \<^verbatim>\<open>n=0:1:5:7==7\<close> is cut at every \<^verbatim>\<open>=\<close>, so its default is the value of
  \<^verbatim>\<open>7\<close> and not the value of its fourth expression \<^verbatim>\<open>7==7\<close>.
\<close>

theorem parseVariableRange_valid_counterexample:
  "parseVariableRange demoHost (JStr ''n=0:1:5:7==7'') [] 0 =
     Returns \<lparr>name = ''n'', start = JNum 0, step = JNum 1, end' = JNum 5, defaultVal = JNum 7\<rparr> 0
   \<and> evaluate demoHost (JStr ''7==7'') [] 0 = Returns (JBool True) 0"
  by (simp add: parse_defs demo_defs)

lemma concatParts_in_turn:
  assumes "\<forall>j < length ps.
      if even (i + j) then st (Suc (i + j)) = st (i + j)
      else evaluate h (JStr (ps ! j)) params (st (i + j)) = Returns (vl (i + j)) (st (Suc (i + j)))"
  shows "concatParts h ps i params acc (st i) =
    Returns (acc @ concat (map (\<lambda>j. if even (i + j) then ps ! j else stringOf h (vl (i + j)))
                                [0..<length ps]))
            (st (i + length ps))"
  using assms
proof (induction ps arbitrary: i acc)
  case Nil
  show ?case by simp
next
  case (Cons p ps)
  have rest: "\<forall>j < length ps.
      if even (Suc i + j) then st (Suc (Suc i + j)) = st (Suc i + j)
      else evaluate h (JStr (ps ! j)) params (st (Suc i + j)) =
             Returns (vl (Suc i + j)) (st (Suc (Suc i + j)))"
  proof (intro allI impI)
    fix j assume "j < length ps"
    then have "Suc j < length (p # ps)" by simp
    from Cons.prems [rule_format, OF this]
    have "if even (i + Suc j) then st (Suc (i + Suc j)) = st (i + Suc j)
       else evaluate h (JStr (ps ! j)) params (st (i + Suc j)) =
              Returns (vl (i + Suc j)) (st (Suc (i + Suc j)))"
      by (simp only: nth_Cons_Suc)
    moreover have "i + Suc j = Suc i + j" by simp
    ultimately show
      "if even (Suc i + j) then st (Suc (Suc i + j)) = st (Suc i + j)
       else evaluate h (JStr (ps ! j)) params (st (Suc i + j)) =
              Returns (vl (Suc i + j)) (st (Suc (Suc i + j)))"
      by (simp only:)
  qed
  have first: "if even i then st (Suc i) = st i
      else evaluate h (JStr p) params (st i) = Returns (vl i) (st (Suc i))"
    using Cons.prems [rule_format, of 0] by (simp split: if_splits)
  have shift: "map (\<lambda>j. if even (i + j) then (p # ps) ! j else stringOf h (vl (i + j)))
        [0..<length (p # ps)] =
      (if even i then p else stringOf h (vl i)) #
      map (\<lambda>j. if even (Suc i + j) then ps ! j else stringOf h (vl (Suc i + j))) [0..<length ps]"
  proof -
    have "[0..<length (p # ps)] = 0 # map Suc [0..<length ps]"
      by (simp add: upt_conv_Cons map_Suc_upt del: upt_Suc)
    then show ?thesis by (simp add: comp_def del: upt_Suc)
  qed
  show ?case
  proof (cases "even i")
    case True
    then have "st (Suc i) = st i" using first by simp
    then show ?thesis
      using True Cons.IH [OF rest, of "acc @ p"] unfolding shift
      by (simp add: even_iff_mod_2_eq_zero)
  next
    case False
    then have "evaluate h (JStr p) params (st i) = Returns (vl i) (st (Suc i))"
      using first by simp
    then show ?thesis
      using False Cons.IH [OF rest, of "acc @ stringOf h (vl i)"] unfolding shift
      by (simp add: even_iff_mod_2_eq_zero)
  qed
qed

text \<open>
  Claim C6. A string that is one expression between two back-ticks (and has no other
  back-tick) expands to the value of the expression, of whatever type. Every other
  string is split at its back-ticks and expands to the concatenation of its parts, the
  parts at even positions as they are and the parts at odd positions evaluated and
  converted to strings. The expressions are evaluated from left to right: \<open>st i\<close> is
  the state of the random number generator before part \<open>i\<close> and \<open>vl i\<close> the value of the
  odd part \<open>i\<close>.
\<close>

theorem expandString_value_or_text:
  shows "(\<forall>expr v r'.
            CHR 0x60 \<notin> set expr \<and> evaluate h (JStr expr) params r = Returns v r'
            \<longrightarrow> expandString h (CHR 0x60 # expr @ [CHR 0x60]) params r = Returns v r')
    \<and> (\<forall>st vl.
            \<not> (\<exists>expr. CHR 0x60 \<notin> set expr \<and> str = CHR 0x60 # expr @ [CHR 0x60])
          \<and> st 0 = r
          \<and> (\<forall>i < length (split CHR 0x60 str).
                if even i then st (Suc i) = st i
                else evaluate h (JStr (split CHR 0x60 str ! i)) params (st i) =
                       Returns (vl i) (st (Suc i)))
            \<longrightarrow> expandString h str params r =
                  Returns (JStr (concat (map (\<lambda>i. if even i then split CHR 0x60 str ! i
                                                  else stringOf h (vl i))
                                             [0..<length (split CHR 0x60 str)])))
                          (st (length (split CHR 0x60 str))))"
proof (intro conjI allI impI)
  fix expr v r'
  assume "CHR 0x60 \<notin> set expr \<and> evaluate h (JStr expr) params r = Returns v r'"
  then have "split CHR 0x60 (CHR 0x60 # expr @ [CHR 0x60]) = [[], expr, []]"
    and "evaluate h (JStr expr) params r = Returns v r'"
    by (simp_all add: split_at_separator)
  then show "expandString h (CHR 0x60 # expr @ [CHR 0x60]) params r = Returns v r'"
    unfolding expandString_def by (simp del: split.simps)
next
  fix st :: "nat \<Rightarrow> 'a" and vl
  let ?parts = "split CHR 0x60 str"
  assume asm: "\<not> (\<exists>expr. CHR 0x60 \<notin> set expr \<and> str = CHR 0x60 # expr @ [CHR 0x60])
          \<and> st 0 = r
          \<and> (\<forall>i < length ?parts.
                if even i then st (Suc i) = st i
                else evaluate h (JStr (?parts ! i)) params (st i) = Returns (vl i) (st (Suc i)))"
  then have other: "\<not> (length ?parts = 3 \<and> ?parts ! 0 = [] \<and> ?parts ! 2 = [])"
    using split_single_expression [of "CHR 0x60" str] by (simp add: Let_def)
  from asm have turn: "\<forall>j < length ?parts.
      if even (0 + j) then st (Suc (0 + j)) = st (0 + j)
      else evaluate h (JStr (?parts ! j)) params (st (0 + j)) = Returns (vl (0 + j)) (st (Suc (0 + j)))"
    by (simp cong: if_cong)
  from asm have r: "st 0 = r" by simp
  have cp: "concatParts h ?parts 0 params [] r =
      Returns (concat (map (\<lambda>i. if even i then ?parts ! i else stringOf h (vl i))
                           [0..<length ?parts]))
              (st (length ?parts))"
    using concatParts_in_turn [OF turn, of "[]"] by (simp add: r cong: if_cong)
  show "expandString h str params r =
      Returns (JStr (concat (map (\<lambda>i. if even i then ?parts ! i else stringOf h (vl i))
                                 [0..<length ?parts])))
              (st (length ?parts))"
    unfolding expandString_def Let_def if_not_P [OF other] by (simp add: cp)
qed

text \<open>\<^verbatim>\<open>`2+3`\<close> expands to the number 5, \<^verbatim>\<open>v=`2+3`\<close> to the string \<^verbatim>\<open>v=5\<close>.\<close>

theorem expandString_value_or_text_witness:
  "expandString demoHost ''`2+3`'' [] 0 = Returns (JNum 5) 0
   \<and> expandString demoHost ''v=`2+3`'' [] 0 = Returns (JStr ''v=5'') 0"
proof -
  have ev: "evaluate demoHost (JStr ''2+3'') [] 0 = Returns (JNum 5) 0"
    by (simp add: demo_defs)
  have parts: "split CHR 0x60 ''v=`2+3`'' = [''v='', ''2+3'', []]"
    by simp
  have five: "stringOf demoHost (JNum 5) = ''5''"
    by (simp add: stringOf_def demo_defs decimal.simps)
  have l3: "[0..<3] = [0, 1, 2]"
    by (simp add: upt_rec)
  note T = expandString_value_or_text [of demoHost "[]" 0 "''v=`2+3`''"]
  have "expandString demoHost (CHR 0x60 # ''2+3'' @ [CHR 0x60]) [] 0 = Returns (JNum 5) 0"
    by (rule T [THEN conjunct1, rule_format]) (simp add: ev)
  moreover have "expandString demoHost ''v=`2+3`'' [] 0 =
      Returns (JStr (concat (map (\<lambda>i. if even i then split CHR 0x60 ''v=`2+3`'' ! i
                                      else stringOf demoHost ((\<lambda>_. JNum 5) i))
                                 [0..<length (split CHR 0x60 ''v=`2+3`'')])))
              ((\<lambda>_. 0) (length (split CHR 0x60 ''v=`2+3`'')))"
    by (rule T [THEN conjunct2, rule_format, where st = "\<lambda>_. 0" and vl = "\<lambda>_. JNum 5"])
      (auto simp: parts ev less_Suc_eq numeral_3_eq_3)
  ultimately show ?thesis
    by (simp add: parts five l3)
qed

subsection \<open>Loops with conditions\<close>

lemma andThen_assoc:
  "andThen (andThen res f) g = andThen res (\<lambda>a s. andThen (f a s) g)"
  by (auto simp: andThen_def split: option.splits outcome.splits)

lemma andThen_Returns [simp]: "andThen res (\<lambda>a s. Some (Returns a s)) = res"
  by (auto simp: andThen_def split: option.splits outcome.splits)

lemma expandLoop_append:
  "expandLoop h m entries (xs @ ys) s =
     andThen (expandLoop h m entries xs s) (\<lambda>out1 s1.
     andThen (expandLoop h m entries ys s1) (\<lambda>out2 s2.
     Some (Returns (out1 @ out2) s2)))"
proof (induction xs arbitrary: s)
  case Nil
  show ?case by simp
next
  case (Cons lp xs)
  show ?case
    by (simp add: Cons.IH andThen_assoc split: option.splits outcome.splits)
qed

lemma expandLoop_single:
  assumes "map_of entries ''if'' = Some cond"
  shows "expandLoop h m entries [lp] s =
    (case evaluate h cond lp s of
       Throws e s' \<Rightarrow> Some (Throws e s')
     | Returns c s' \<Rightarrow>
         if truthy c
         then andThen (expandObject h m entries lp s') (\<lambda>obj s''. Some (Returns [JObj obj] s''))
         else Some (Returns [] s'))"
  by (simp add: assms split: outcome.splits)

lemma expandLoop_filter:
  assumes "map_of entries ''if'' = Some cond"
    and "\<forall>lp \<in> set lps. \<forall>s. evaluate h cond lp s = Returns (c lp) s
           \<and> (truthy (c lp) \<longrightarrow> expandObject h m entries lp s = Some (Returns (body lp) s))"
  shows "expandLoop h m entries lps s =
    Some (Returns (map (\<lambda>lp. JObj (body lp)) (filter (\<lambda>lp. truthy (c lp)) lps)) s)"
  using assms(2) by (induction lps) (simp_all add: assms(1))

text \<open>
  Claim C5. Let an element of an array have a \<^verbatim>\<open>for\<close> key, whose ranges parse and
  expand to the loop parameters \<open>loopParams\<close> (within the bound), and an \<^verbatim>\<open>if\<close> key.
  \<^item> The element expands as the loop over \<open>loopParams\<close> does.
  \<^item> The loop treats the combinations in their order: the loop over a list of
    combinations is the loop over any first part of it followed by the loop over the rest,
    and their results are appended.
  \<^item> The loop over one combination evaluates the condition under that combination's
    bindings; when the value is falsy nothing is added, otherwise exactly one object,
    the expansion of the element under these bindings.
  \<^item> So when evaluating the condition and expanding the element draw nothing from
    the random number generator, the result is one expanded object for each combination
    whose condition is truthy, in the order of the loop.
\<close>

theorem expandArray_for_if:
  assumes "map_of entries ''for'' = Some forObj"
    and "map_of entries ''if'' = Some cond"
    and "parseLoopVars h forObj params r = Returns loopVars r'"
    and "expandLoopVars h m params loopVars = Some (Inr loopParams)"
    and "real (length loopParams) \<le> maxLoopLengthOr1000 m"
  shows "expandElement h m (JObj entries) params r = expandLoop h m entries loopParams r'
    \<and> (\<forall>before after s.
          expandLoop h m entries (before @ after) s =
            andThen (expandLoop h m entries before s) (\<lambda>out1 s1.
            andThen (expandLoop h m entries after s1) (\<lambda>out2 s2.
            Some (Returns (out1 @ out2) s2))))
    \<and> (\<forall>loopParam s.
          expandLoop h m entries [loopParam] s =
            (case evaluate h cond loopParam s of
               Throws e s' \<Rightarrow> Some (Throws e s')
             | Returns c s' \<Rightarrow>
                 if truthy c
                 then andThen (expandObject h m entries loopParam s')
                        (\<lambda>obj s''. Some (Returns [JObj obj] s''))
                 else Some (Returns [] s')))
    \<and> (\<forall>c body.
          (\<forall>loopParam \<in> set loopParams. \<forall>s.
              evaluate h cond loopParam s = Returns (c loopParam) s
            \<and> (truthy (c loopParam) \<longrightarrow>
                 expandObject h m entries loopParam s = Some (Returns (body loopParam) s)))
          \<longrightarrow> expandArray h m [JObj entries] params r =
                Some (Returns (map (\<lambda>loopParam. JObj (body loopParam))
                                (filter (\<lambda>loopParam. truthy (c loopParam)) loopParams)) r'))"
proof -
  have el: "expandElement h m (JObj entries) params r = expandLoop h m entries loopParams r'"
    using assms(1,3,4,5) by simp
  have "expandArray h m [JObj entries] params r =
      Some (Returns (map (\<lambda>loopParam. JObj (body loopParam))
                      (filter (\<lambda>loopParam. truthy (c loopParam)) loopParams)) r')"
    if "\<forall>loopParam \<in> set loopParams. \<forall>s.
              evaluate h cond loopParam s = Returns (c loopParam) s
            \<and> (truthy (c loopParam) \<longrightarrow>
                 expandObject h m entries loopParam s = Some (Returns (body loopParam) s))"
    for c body
    using expandLoop_filter [OF assms(2) that, of r'] el
    by (simp del: expandElement.simps)
  with el expandLoop_append [of h m entries] expandLoop_single [OF assms(2), of h m]
  show ?thesis by blast
qed

text \<open>
  \<^verbatim>\<open>{for: "i=0:1:2", if: "i!=1", a: "`i`"}\<close> expands to two elements, for \<open>i = 0\<close> and
  \<open>i = 2\<close>.
\<close>

theorem expandArray_for_if_witness:
  "expandArray demoHost demoDef
     [JObj [(''for'', JStr ''i=0:1:2''), (''if'', JStr ''i!=1''), (''a'', JStr ''`i`'')]] [] 0 =
   Some (Returns [JObj [(''a'', JNum 0)], JObj [(''a'', JNum 2)]] 0)"
proof -
  let ?entries = "[(''for'', JStr ''i=0:1:2''), (''if'', JStr ''i!=1''), (''a'', JStr ''`i`'')]"
  let ?i = "\<lparr>name = ''i'', start = JNum 0, step = JNum 1, end' = JNum 2, defaultVal = JNum 0\<rparr>"
  let ?lps = "[[(''i'', JNum 0)], [(''i'', JNum 1)], [(''i'', JNum 2)]]"
  let ?c = "\<lambda>lp. case map_of lp ''i'' of Some (JNum i) \<Rightarrow> JBool (i \<noteq> 1) | _ \<Rightarrow> JUndefined"
  let ?body = "\<lambda>lp. case map_of lp ''i'' of Some v \<Rightarrow> [(''a'', v)] | None \<Rightarrow> []"
  have forKey: "map_of ?entries ''for'' = Some (JStr ''i=0:1:2'')"
    and cond: "map_of ?entries ''if'' = Some (JStr ''i!=1'')"
    by simp_all
  have parse: "parseLoopVars demoHost (JStr ''i=0:1:2'') [] 0 = Returns [?i] 0"
    by (simp add: parse_defs demo_defs)
  have loop: "expandLoopVars demoHost demoDef [] [?i] = Some (Inr ?lps)"
    by (simp add: loopLength_def maxLoopLengthOr1000_def demoDef_def demoHost_def engine_simps
        valueLoop.simps)
  have len: "real (length ?lps) \<le> maxLoopLengthOr1000 demoDef"
    by (simp add: maxLoopLengthOr1000_def demoDef_def)
  have pure: "\<forall>loopParam \<in> set ?lps. \<forall>s.
      evaluate demoHost (JStr ''i!=1'') loopParam s = Returns (?c loopParam) s
    \<and> (truthy (?c loopParam) \<longrightarrow>
         expandObject demoHost demoDef ?entries loopParam s = Some (Returns (?body loopParam) s))"
    by (simp add: demo_defs expandString_def truthy_def)
  have "expandArray demoHost demoDef [JObj ?entries] [] 0 =
      Some (Returns (map (\<lambda>loopParam. JObj (?body loopParam))
                      (filter (\<lambda>loopParam. truthy (?c loopParam)) ?lps)) 0)"
    by (rule expandArray_for_if [OF forKey cond parse loop len, THEN conjunct2, THEN conjunct2,
          THEN conjunct2, rule_format, where c = ?c and body = ?body])
      (use pure in blast)
  then show ?thesis by (simp add: truthy_def)
qed

subsection \<open>Expanding a module object\<close>

lemma fullParamsOf_unchanged [simp]:
  "fullParamsOf (this\<lparr>error := e\<rparr>) = fullParamsOf this"
  "fullParamsOf (this\<lparr>objs := os\<rparr>) = fullParamsOf this"
  by (simp_all add: fullParamsOf_def)

text \<open>
  Claim C10. Let the expansion of \<^verbatim>\<open>moduleDef.vars\<close> succeed, so that \<open>expandObjs\<close>
  reaches its \<^verbatim>\<open>try\<close> block. If \<open>expandArray\<close> throws on \<^verbatim>\<open>moduleDef.objs\<close>, or if
  the construction of one of the expanded records throws, \<open>expandObjs\<close> returns, the
  error thrown is in the field \<open>error\<close>, and the module object is otherwise as before
  the call: in particular its list \<open>objs\<close> is unchanged. Whenever \<open>expandObjs\<close> returns
  with an error recorded, the list \<open>objs\<close> is the one from before the call.
\<close>

theorem expandObjs_failure_keeps_objs:
  assumes "expandObject h (moduleDef this)
             (case vars (moduleDef this) of None \<Rightarrow> [] | Some entries \<Rightarrow> entries)
             (fullParamsOf this) r = Some (Returns varParams r1)"
  shows "(\<forall>e r2.
            expandArray h (moduleDef this) (objsDef (moduleDef this))
              (objectAssign (fullParamsOf this) varParams) r1 = Some (Throws e r2)
          \<longrightarrow> expandObjs h this r = Some (Returns () (this\<lparr>error := Some e\<rparr>, r2)))
    \<and> (\<forall>expandedObjs r2 e r3.
            expandArray h (moduleDef this) (objsDef (moduleDef this))
              (objectAssign (fullParamsOf this) varParams) r1 = Some (Returns expandedObjs r2)
          \<and> constructAll h expandedObjs r2 = Throws e r3
          \<longrightarrow> expandObjs h this r = Some (Returns () (this\<lparr>error := Some e\<rparr>, r3)))
    \<and> (\<forall>e. objs (this\<lparr>error := Some e\<rparr>) = objs this)
    \<and> (\<forall>this' r'. expandObjs h this r = Some (Returns () (this', r')) \<and> error this' \<noteq> None
          \<longrightarrow> objs this' = objs this)"
proof (intro conjI allI impI)
  fix e r2
  assume "expandArray h (moduleDef this) (objsDef (moduleDef this))
              (objectAssign (fullParamsOf this) varParams) r1 = Some (Throws e r2)"
  then show "expandObjs h this r = Some (Returns () (this\<lparr>error := Some e\<rparr>, r2))"
    using assms by (simp add: expandObjs_def Let_def)
next
  fix expandedObjs r2 e r3
  assume "expandArray h (moduleDef this) (objsDef (moduleDef this))
              (objectAssign (fullParamsOf this) varParams) r1 = Some (Returns expandedObjs r2)
          \<and> constructAll h expandedObjs r2 = Throws e r3"
  then show "expandObjs h this r = Some (Returns () (this\<lparr>error := Some e\<rparr>, r3))"
    using assms by (simp add: expandObjs_def Let_def)
next
  fix e show "objs (this\<lparr>error := Some e\<rparr>) = objs this" by simp
next
  fix this' r'
  assume "expandObjs h this r = Some (Returns () (this', r')) \<and> error this' \<noteq> None"
  then show "objs this' = objs this"
    using assms
    by (auto simp: expandObjs_def Let_def andThen_def split: option.splits outcome.splits)
qed

lemma expandObjs_again:
  assumes "expandObjs h this r = Some (Returns () (this', r'))"
  shows "expandObjs h this' r = Some (Returns () (this', r'))"
  using assms
  by (auto simp: expandObjs_def Let_def andThen_def split: option.splits outcome.splits)

lemma expandObjs_Throws:
  assumes "expandObjs h this r = Some (Throws e (this', r'))"
  shows "this' = this"
  using assms
  by (auto simp: expandObjs_def Let_def andThen_def split: option.splits outcome.splits)

lemma fullParamsOf_cong:
  "points other = points this \<Longrightarrow> paramsObj other = paramsObj this \<Longrightarrow>
   fullParamsOf other = fullParamsOf this"
  by (simp add: fullParamsOf_def)

lemma expandObjs_same_inputs:
  assumes "moduleDef other = moduleDef this" and "points other = points this"
    and "paramsObj other = paramsObj this"
    and "expandObjs h this r = Some (Returns () (this', r'))"
  shows "expandObjs h other r =
    Some (Returns () (other\<lparr>error := error this',
                             objs := (if error this' = None then objs this' else objs other)\<rparr>, r'))"
  using assms(4)
  by (auto simp: expandObjs_def Let_def andThen_def assms(1) fullParamsOf_cong [OF assms(2,3)]
      split: option.splits outcome.splits)

text \<open>
  Claim C9, as amended. When \<open>expandObjs\<close> has returned, calling it again on the
  resulting module object, with the random number generator in the state it had before
  the first call, returns the same module object again: the same list \<open>objs\<close> and the
  same \<open>error\<close>. (When the expansion draws nothing from the generator, this is the
  second of two calls in succession.) When \<open>expandObjs\<close> throws, it has not changed the
  module object. More generally, on any module object with the same module definition,
  control points and parameter values, and from the same state of the generator,
  \<open>expandObjs\<close> records the same error and, when there is none, produces the same list
  \<open>objs\<close>.
\<close>

theorem expandObjs_idempotent:
  fixes this :: "('o, 'y) ModuleObj_scheme"
  shows
  "(\<forall>this' r'. expandObjs h this r = Some (Returns () (this', r'))
       \<longrightarrow> expandObjs h this' r = Some (Returns () (this', r')))
   \<and> (\<forall>e this' r'. expandObjs h this r = Some (Throws e (this', r')) \<longrightarrow> this' = this)
   \<and> (\<forall>(other :: ('o, 'y) ModuleObj_scheme) this' r'.
         moduleDef other = moduleDef this \<and> points other = points this
       \<and> paramsObj other = paramsObj this
       \<and> expandObjs h this r = Some (Returns () (this', r'))
       \<longrightarrow> expandObjs h other r =
             Some (Returns () (other\<lparr>error := error this',
                       objs := (if error this' = None then objs this' else objs other)\<rparr>, r')))"
proof (intro conjI allI impI)
  fix this' r'
  assume "expandObjs h this r = Some (Returns () (this', r'))"
  then show "expandObjs h this' r = Some (Returns () (this', r'))"
    by (rule expandObjs_again)
next
  fix e this' r'
  assume "expandObjs h this r = Some (Throws e (this', r'))"
  then show "this' = this"
    by (rule expandObjs_Throws)
next
  fix other :: "('o, 'y) ModuleObj_scheme" and this' r'
  assume "moduleDef other = moduleDef this \<and> points other = points this
       \<and> paramsObj other = paramsObj this
       \<and> expandObjs h this r = Some (Returns () (this', r'))"
  then show "expandObjs h other r =
             Some (Returns () (other\<lparr>error := error this',
                       objs := (if error this' = None then objs this' else objs other)\<rparr>, r'))"
    using expandObjs_same_inputs [of other this h r this' r'] by blast
qed

text \<open>A module of one mirror whose property \<^verbatim>\<open>a\<close> is \<^verbatim>\<open>`2+3`\<close>, expanded twice.\<close>

theorem expandObjs_idempotent_witness:
  "expandObjs demoHost
     (demoObj (demoDef\<lparr>objsDef := [JObj [(''type'', JStr ''Mirror''), (''a'', JStr ''`2+3`'')]]\<rparr>)) 0 =
     Some (Returns ()
       ((demoObj (demoDef\<lparr>objsDef := [JObj [(''type'', JStr ''Mirror''), (''a'', JStr ''`2+3`'')]]\<rparr>))
          \<lparr>objs := [JObj [(''type'', JStr ''Mirror''), (''a'', JNum 5)]]\<rparr>, 0))
   \<and> expandObjs demoHost
     ((demoObj (demoDef\<lparr>objsDef := [JObj [(''type'', JStr ''Mirror''), (''a'', JStr ''`2+3`'')]]\<rparr>))
          \<lparr>objs := [JObj [(''type'', JStr ''Mirror''), (''a'', JNum 5)]]\<rparr>) 0 =
     Some (Returns ()
       ((demoObj (demoDef\<lparr>objsDef := [JObj [(''type'', JStr ''Mirror''), (''a'', JStr ''`2+3`'')]]\<rparr>))
          \<lparr>objs := [JObj [(''type'', JStr ''Mirror''), (''a'', JNum 5)]]\<rparr>, 0))"
proof -
  let ?obj = "demoObj (demoDef\<lparr>objsDef := [JObj [(''type'', JStr ''Mirror''), (''a'', JStr ''`2+3`'')]]\<rparr>)"
  let ?obj' = "?obj\<lparr>objs := [JObj [(''type'', JStr ''Mirror''), (''a'', JNum 5)]]\<rparr>"
  have first: "expandObjs demoHost ?obj 0 = Some (Returns () (?obj', 0))"
    by (simp add: expandObjs_def demoObj_def demo_defs fullParamsOf_def objectAssign_def
        expandString_def construct_def stringOf_def)
  from expandObjs_idempotent [of demoHost ?obj 0, THEN conjunct1, rule_format, OF first] first
  show ?thesis by simp
qed

text \<open>
  The claim as stated fails: with the property \<^verbatim>\<open>a\<close> set to \<^verbatim>\<open>`random()`\<close>, two
  calls in succession give two different lists of objects.
\<close>

theorem expandObjs_idempotent_counterexample:
  "expandObjs demoHost
     (demoObj (demoDef\<lparr>objsDef := [JObj [(''type'', JStr ''Mirror''), (''a'', JStr ''`random()`'')]]\<rparr>)) 0 =
     Some (Returns ()
       ((demoObj (demoDef\<lparr>objsDef := [JObj [(''type'', JStr ''Mirror''), (''a'', JStr ''`random()`'')]]\<rparr>))
          \<lparr>objs := [JObj [(''type'', JStr ''Mirror''), (''a'', JNum 0)]]\<rparr>, 1))
   \<and> expandObjs demoHost
     ((demoObj (demoDef\<lparr>objsDef := [JObj [(''type'', JStr ''Mirror''), (''a'', JStr ''`random()`'')]]\<rparr>))
          \<lparr>objs := [JObj [(''type'', JStr ''Mirror''), (''a'', JNum 0)]]\<rparr>) 1 =
     Some (Returns ()
       ((demoObj (demoDef\<lparr>objsDef := [JObj [(''type'', JStr ''Mirror''), (''a'', JStr ''`random()`'')]]\<rparr>))
          \<lparr>objs := [JObj [(''type'', JStr ''Mirror''), (''a'', JNum 1)]]\<rparr>, 2))
   \<and> [JObj [(''type'', JStr ''Mirror''), (''a'', JNum 0)]]
       \<noteq> [JObj [(''type'', JStr ''Mirror''), (''a'', JNum 1)]]"
  by (simp add: expandObjs_def demoObj_def demo_defs fullParamsOf_def objectAssign_def
        expandString_def construct_def stringOf_def)

text \<open>
  A module of a mirror and of a record with an unregistered type: the mirror is
  constructed, the second construction throws, and the list \<open>objs\<close> stays as it was.
\<close>

theorem expandObjs_failure_keeps_objs_witness:
  "expandObjs demoHost
     ((demoObj (demoDef\<lparr>objsDef := [JObj [(''type'', JStr ''Mirror'')], JObj [(''type'', JStr ''Lens'')]]\<rparr>))
        \<lparr>objs := [JNull]\<rparr>) 0 =
   Some (Returns ()
     ((demoObj (demoDef\<lparr>objsDef := [JObj [(''type'', JStr ''Mirror'')], JObj [(''type'', JStr ''Lens'')]]\<rparr>))
        \<lparr>objs := [JNull],
          error := Some (TypeError ''sceneObjs[objData.type] is not a constructor'')\<rparr>, 0))"
proof -
  let ?def = "demoDef\<lparr>objsDef := [JObj [(''type'', JStr ''Mirror'')], JObj [(''type'', JStr ''Lens'')]]\<rparr>"
  let ?obj = "(demoObj ?def)\<lparr>objs := [JNull]\<rparr>"
  have vars: "expandObject demoHost (moduleDef ?obj)
      (case vars (moduleDef ?obj) of None \<Rightarrow> [] | Some entries \<Rightarrow> entries)
      (fullParamsOf ?obj) 0 = Some (Returns [] 0)"
    by (simp add: demoObj_def demo_defs)
  have arr: "expandArray demoHost (moduleDef ?obj) (objsDef (moduleDef ?obj))
      (objectAssign (fullParamsOf ?obj) []) 0 =
      Some (Returns [JObj [(''type'', JStr ''Mirror'')], JObj [(''type'', JStr ''Lens'')]] 0)"
    by (simp add: demoObj_def demo_defs expandString_def)
  have con: "constructAll demoHost [JObj [(''type'', JStr ''Mirror'')], JObj [(''type'', JStr ''Lens'')]] 0 =
      Throws (TypeError ''sceneObjs[objData.type] is not a constructor'') 0"
    by (simp add: construct_def stringOf_def demo_defs)
  from expandObjs_failure_keeps_objs [OF vars, THEN conjunct2, THEN conjunct1, rule_format,
      OF conjI [OF arr con]]
  show ?thesis by (simp add: demoObj_def)
qed

lemma expandObjs_throws_only_from_vars:
  assumes "expandObjs h this r = Some (Throws e st)"
  shows "\<exists>r'. expandObject h (moduleDef this)
           (case vars (moduleDef this) of None \<Rightarrow> [] | Some entries \<Rightarrow> entries)
           (fullParamsOf this) r = Some (Throws e r') \<and> st = (this, r')"
  using assms
  by (auto simp: expandObjs_def Let_def andThen_def split: option.splits outcome.splits)

lemma expandObjs_without_vars_never_throws:
  assumes "vars (moduleDef this) = None"
  shows "expandObjs h this r \<noteq> Some (Throws e st)"
  using expandObjs_throws_only_from_vars [of h this r e st] assms by auto

text \<open>
  Claim C1 fails on the code. The expansion of \<^verbatim>\<open>moduleDef.vars\<close> is not inside the
  \<^verbatim>\<open>try\<close> block: with \<^verbatim>\<open>vars = {a: "`foo`"}\<close> and no binding for \<^verbatim>\<open>foo\<close> the error of
  the evaluator leaves \<open>expandObjs\<close>, and the field \<open>error\<close> is not set.
\<close>

theorem expandObjs_throws_from_vars:
  "expandObjs demoHost (demoObj (demoDef\<lparr>vars := Some [(''a'', JStr ''`foo`'')]\<rparr>)) 0 =
   Some (Throws (ExpandStringError ''`foo`'' [(''random'', JFunction)]
                   (EvaluateError ''Undefined symbol foo''))
          (demoObj (demoDef\<lparr>vars := Some [(''a'', JStr ''`foo`'')]\<rparr>), 0))"
  by (simp add: expandObjs_def demoObj_def demo_defs fullParamsOf_def objectAssign_def
        expandString_def)

end
